theory Spec2Isabelle
  imports Complex_Main "HOL-Library.Log_Nat" "HOL-Library.Sublist"
begin

section \<open>Python numbers\<close>

text \<open>
  A Python \<open>float\<close> is an IEEE 754 binary64 value. A finite one is modelled by the
  rational number it denotes, the other three values by constructors. The sign of a
  zero is not represented: Python compares \<open>-0.0\<close> and \<open>0.0\<close> equal, and of the
  operations used by the SDK (\<open>+\<close>, \<open>*\<close>, \<open>/\<close> on ints, \<open>round\<close>, \<open>>=\<close>) none
  maps the two zeros to different numbers.
\<close>

datatype pyfloat = Finite rat | PosInf | NegInf | NaN

text \<open>\<open>floor_log2 x\<close> is the integer \<open>e\<close> with \<open>2^e \<le> x < 2^(e+1)\<close>, for \<open>0 < x\<close>.\<close>

definition floor_log2 :: "rat \<Rightarrow> int" where
  "floor_log2 x = (if 1 \<le> x then bitlen \<lfloor>x\<rfloor> - 1 else - bitlen (\<lceil>1 / x\<rceil> - 1))"

text \<open>Rounding to the nearest integer, a tie going to the even one.\<close>

definition round_half_even :: "rat \<Rightarrow> int" where
  "round_half_even r =
     (let f = \<lfloor>r\<rfloor>; d = r - of_int f
      in if d < 1 / 2 then f else if 1 / 2 < d then f + 1 else if even f then f else f + 1)"

text \<open>
  The spacing of the binary64 numbers around \<open>x > 0\<close>: 53 significant bits, and the
  fixed spacing \<open>2^-1074\<close> of the subnormal numbers below \<open>2^-1022\<close>.
\<close>

definition ulp :: "rat \<Rightarrow> rat" where
  "ulp x = 2 powi (max (floor_log2 x) (- 1022) - 52)"

text \<open>
  \<open>round64 x\<close> is the binary64 number nearest to \<open>x\<close> (ties to even) when the exponent
  range is unbounded above; \<open>fl\<close> adds the overflow to an infinity. Every arithmetic
  operation of IEEE 754 returns \<open>fl\<close> of the exact result.
\<close>

definition round64 :: "rat \<Rightarrow> rat" where
  "round64 x =
     (if x = 0 then 0
      else sgn x * (of_int (round_half_even (\<bar>x\<bar> / ulp \<bar>x\<bar>)) * ulp \<bar>x\<bar>))"

definition fl :: "rat \<Rightarrow> pyfloat" where
  "fl x = (let y = round64 x
           in if 2 ^ 1024 \<le> y then PosInf else if y \<le> - (2 ^ 1024) then NegInf
              else Finite y)"

text \<open>A \<open>pyfloat\<close> is well formed when its rational is a binary64 number.\<close>

definition is_float64 :: "pyfloat \<Rightarrow> bool" where
  "is_float64 x = (case x of Finite r \<Rightarrow> fl r = Finite r | _ \<Rightarrow> True)"

text \<open>Comparison: every comparison with a NaN is false.\<close>

fun float_le :: "pyfloat \<Rightarrow> pyfloat \<Rightarrow> bool" where
  "float_le NaN _ = False"
| "float_le _ NaN = False"
| "float_le NegInf _ = True"
| "float_le _ PosInf = True"
| "float_le (Finite a) (Finite b) = (a \<le> b)"
| "float_le (Finite a) NegInf = False"
| "float_le PosInf (Finite b) = False"
| "float_le PosInf NegInf = False"

definition float_lt :: "pyfloat \<Rightarrow> pyfloat \<Rightarrow> bool" where
  "float_lt x y = (float_le x y \<and> \<not> float_le y x)"

text \<open>
  A Python number is an int or a float. Python compares an int and a float by their
  exact values, so a comparison is the one of the values; an int is not rounded for
  it.
\<close>

datatype pynum = PyInt int | PyFloat pyfloat

fun num_value :: "pynum \<Rightarrow> pyfloat" where
  "num_value (PyInt n) = Finite (of_int n)"
| "num_value (PyFloat x) = x"

definition num_ge :: "pynum \<Rightarrow> pynum \<Rightarrow> bool" where
  "num_ge x y = float_le (num_value y) (num_value x)"

definition num_lt :: "pynum \<Rightarrow> pynum \<Rightarrow> bool" where
  "num_lt x y = float_lt (num_value x) (num_value y)"

fun float_add :: "pyfloat \<Rightarrow> pyfloat \<Rightarrow> pyfloat" where
  "float_add NaN _ = NaN"
| "float_add _ NaN = NaN"
| "float_add PosInf NegInf = NaN"
| "float_add NegInf PosInf = NaN"
| "float_add PosInf _ = PosInf"
| "float_add _ PosInf = PosInf"
| "float_add NegInf _ = NegInf"
| "float_add _ NegInf = NegInf"
| "float_add (Finite a) (Finite b) = fl (a + b)"

fun float_mul :: "pyfloat \<Rightarrow> pyfloat \<Rightarrow> pyfloat" where
  "float_mul NaN _ = NaN"
| "float_mul _ NaN = NaN"
| "float_mul (Finite a) (Finite b) = fl (a * b)"
| "float_mul (Finite a) PosInf = (if a = 0 then NaN else if 0 < a then PosInf else NegInf)"
| "float_mul (Finite a) NegInf = (if a = 0 then NaN else if 0 < a then NegInf else PosInf)"
| "float_mul PosInf (Finite b) = (if b = 0 then NaN else if 0 < b then PosInf else NegInf)"
| "float_mul NegInf (Finite b) = (if b = 0 then NaN else if 0 < b then NegInf else PosInf)"
| "float_mul PosInf PosInf = PosInf"
| "float_mul NegInf NegInf = PosInf"
| "float_mul PosInf NegInf = NegInf"
| "float_mul NegInf PosInf = NegInf"

section \<open>Exceptions\<close>

text \<open>
  A message built by an f-string is kept as its fragments: the literal text and the
  values formatted into it.
\<close>

datatype fragment = Text string | Fmt_num pynum | Fmt_int int

type_synonym message = "fragment list"

text \<open>
  The instances of \<open>Exception\<close> that the SDK raises or lets through. \<open>Other\<close> stands
  for any other instance of \<open>Exception\<close> raised by code outside the SDK (the wrapped
  client, an adapter).

  Modelled from the spec: the class \<open>BudgetExceededError\<close> is imported from
  \<open>sentinel/errors.py\<close>, which is not among the sources; the spec gives it as the
  domain-specific error raised synchronously to the caller, here an exception that
  carries its message.
\<close>

datatype py_exception =
    ValueError message
  | RuntimeError message
  | KeyError string
  | OverflowError message
  | ZeroDivisionError message
  | NotImplementedError message
  | BudgetExceededError message
  | Other string

text \<open>
  True division of two ints, \<open>a / b\<close>: the correctly rounded quotient, and
  \<open>OverflowError\<close> when it is too large for a float.
\<close>

definition int_truediv :: "int \<Rightarrow> int \<Rightarrow> py_exception + pyfloat" where
  "int_truediv a b =
     (if b = 0 then Inl (ZeroDivisionError [Text ''division by zero''])
      else case fl (of_int a / of_int b) of
             Finite y \<Rightarrow> Inr (Finite y)
           | _ \<Rightarrow> Inl (OverflowError [Text ''integer division result too large for a float'']))"

text \<open>
  The sum \<open>x + c\<close> of a number and a float. An int operand is converted to a float
  first: to the nearest float, and with \<open>OverflowError\<close> when it is too large for one.
  The sum of two floats is rounded once.
\<close>

definition int_to_float :: "int \<Rightarrow> py_exception + pyfloat" where
  "int_to_float n =
     (case fl (of_int n) of
        Finite y \<Rightarrow> Inr (Finite y)
      | _ \<Rightarrow> Inl (OverflowError [Text ''int too large to convert to float'']))"

fun num_add :: "pynum \<Rightarrow> pyfloat \<Rightarrow> py_exception + pynum" where
  "num_add (PyInt n) c =
     (case int_to_float n of Inl e \<Rightarrow> Inl e | Inr a \<Rightarrow> Inr (PyFloat (float_add a c)))"
| "num_add (PyFloat a) c = Inr (PyFloat (float_add a c))"

text \<open>
  A number whose value is a float: a float, or an int that its conversion to a float
  leaves as it is.
\<close>

definition float_valued :: "pynum \<Rightarrow> bool" where
  "float_valued u =
     (case u of PyInt n \<Rightarrow> fl (of_int n) = Finite (of_int n) | PyFloat x \<Rightarrow> is_float64 x)"

text \<open>
  \<open>round(x, ndigits)\<close> for a float and \<open>0 \<le> ndigits\<close>: an infinity or a NaN is
  returned as it is; a finite \<open>x\<close> is rounded, as the exact number it is, to \<open>ndigits\<close>
  decimal places (ties to even), and the decimal result is converted to the nearest
  float.
\<close>

definition py_round :: "pyfloat \<Rightarrow> nat \<Rightarrow> pyfloat" where
  "py_round x ndigits =
     (case x of
        Finite r \<Rightarrow> fl (of_int (round_half_even (r * 10 ^ ndigits)) / 10 ^ ndigits)
      | _ \<Rightarrow> x)"

section \<open>Adapters (sentinel/adapters)\<close>

record completion_usage =
  prompt_tokens :: int
  completion_tokens :: int

record response =
  usage :: completion_usage
  model :: string

text \<open>The dict under \<open>"usage_metadata"\<close>, with its keys \<open>"input_tokens"\<close>, \<open>"output_tokens"\<close>, \<open>"model"\<close>.\<close>

record usage_metadata =
  meta_input_tokens :: int
  meta_output_tokens :: int
  meta_model :: string

text \<open>
  What an adapter returns: the dict with the keys \<open>"cost"\<close> and \<open>"usage_metadata"\<close>.
  The cost is a float: the adapter of the package returns what \<open>round\<close> gives for a
  float.
\<close>

record usage_data =
  cost :: pyfloat
  usage_metadata :: usage_metadata

type_synonym 'r adapter = "'r \<Rightarrow> py_exception + usage_data"

text \<open>\<open>BaseAdapter.get_usage_and_cost\<close>\<close>

definition base_get_usage_and_cost :: "'r adapter" where
  "base_get_usage_and_cost r =
     Inl (NotImplementedError
            [Text ''Each adapter must implement the 'get_usage_and_cost' method.''])"

text \<open>An entry of the pricing table, with its keys \<open>"input"\<close> and \<open>"output"\<close>.\<close>

record pricing =
  input_price :: pyfloat
  output_price :: pyfloat

text \<open>\<open>OpenAIAdapter.MODEL_PRICING\<close>: prices per million tokens.\<close>

definition MODEL_PRICING :: "string \<rightharpoonup> pricing" where
  "MODEL_PRICING =
     [''gpt-4o'' \<mapsto> \<lparr>input_price = Finite 5, output_price = Finite 15\<rparr>,
      ''gpt-4-turbo'' \<mapsto> \<lparr>input_price = Finite 10, output_price = Finite 30\<rparr>,
      ''gpt-3.5-turbo'' \<mapsto> \<lparr>input_price = Finite (1 / 2), output_price = Finite (3 / 2)\<rparr>]"

text \<open>
  \<open>OpenAIAdapter._calculate_openai_cost\<close>. The default pricing holds the ints \<open>0\<close>,
  which the multiplication by a float converts to \<open>0.0\<close>.
\<close>

definition usd_to_inr_rate :: pyfloat where
  "usd_to_inr_rate = Finite (167 / 2)"

definition calculate_openai_cost :: "int \<Rightarrow> int \<Rightarrow> string \<Rightarrow> py_exception + pyfloat" where
  "calculate_openai_cost input_tokens output_tokens model_name =
     (let pricing = (case MODEL_PRICING model_name of
                       Some p \<Rightarrow> p
                     | None \<Rightarrow> \<lparr>input_price = Finite 0, output_price = Finite 0\<rparr>)
      in case int_truediv input_tokens 1000000 of
           Inl e \<Rightarrow> Inl e
         | Inr i \<Rightarrow>
             let input_cost = float_mul i (input_price pricing)
             in case int_truediv output_tokens 1000000 of
                  Inl e \<Rightarrow> Inl e
                | Inr o' \<Rightarrow>
                    let output_cost = float_mul o' (output_price pricing);
                        total_cost_usd = float_add input_cost output_cost;
                        total_cost_inr = float_mul total_cost_usd usd_to_inr_rate
                    in Inr (py_round total_cost_inr 4))"

text \<open>\<open>OpenAIAdapter.get_usage_and_cost\<close>\<close>

definition get_usage_and_cost :: "response adapter" where
  "get_usage_and_cost r =
     (let usage_data = usage r;
          model_name = model r;
          input_tokens = prompt_tokens usage_data;
          output_tokens = completion_tokens usage_data
      in case calculate_openai_cost input_tokens output_tokens model_name of
           Inl e \<Rightarrow> Inl e
         | Inr c \<Rightarrow>
             Inr \<lparr>cost = c,
                  usage_metadata = \<lparr>meta_input_tokens = input_tokens,
                                     meta_output_tokens = output_tokens,
                                     meta_model = model_name\<rparr>\<rparr>)"

section \<open>The SDK (sentinel/__init__.py)\<close>

record sentinel_config =
  api_key :: "string option"
  backend_url :: string
  project_id :: "string option"
  monthly_budget :: pynum
  current_usage :: pynum

text \<open>
  What the backend answers. A request fails with a \<open>RequestException\<close> (no
  connection, timeout) or gives a response: its status code and its body. The body is
  not JSON, or is a JSON object of which each of the three fields is present or not.
  A number of the body is what \<open>response.json()\<close> gives for it: an int for a JSON
  integer, a float otherwise.
\<close>

record verify_data =
  data_project_id :: "string option"
  data_monthly_budget :: "pynum option"
  data_current_usage :: "pynum option"

datatype body = NotJson string | Json verify_data

datatype http_result = RequestFailed string | Responded int body

datatype request = GET string "(string \<times> string) list"

text \<open>
  The state of the process: the module's global \<open>_SENTINEL_CONFIG\<close>, the requests
  sent so far and the reporting threads started so far (each with its argument).
  Console output is not part of it.
\<close>

record process_state =
  SENTINEL_CONFIG :: sentinel_config
  requests_sent :: "request list"
  threads_started :: "usage_data list"

definition initial_config :: sentinel_config where
  "initial_config =
     \<lparr>api_key = None, backend_url = ''http://127.0.0.1:8000'', project_id = None,
      monthly_budget = PyInt 0, current_usage = PyInt 0\<rparr>"

definition initial_state :: process_state where
  "initial_state = \<lparr>SENTINEL_CONFIG = initial_config, requests_sent = [], threads_started = []\<rparr>"

definition config_update :: "(sentinel_config \<Rightarrow> sentinel_config) \<Rightarrow> process_state \<Rightarrow> process_state" where
  "config_update f s = s\<lparr>SENTINEL_CONFIG := f (SENTINEL_CONFIG s)\<rparr>"

text \<open>
  \<open>init\<close>. \<open>net\<close> is the backend as \<open>requests.get\<close> reaches it. \<open>raise_for_status\<close>
  raises \<open>HTTPError\<close> for a status from 400 to 599; \<open>response.json()\<close> raises a
  \<open>JSONDecodeError\<close>, which is a \<open>RequestException\<close>, on a body that is not JSON;
  a key missing from the decoded object raises \<open>KeyError\<close>, which no handler of
  \<open>init\<close> catches.
\<close>

definition init :: "string \<Rightarrow> (request \<Rightarrow> http_result) \<Rightarrow> process_state \<Rightarrow> (py_exception + unit) \<times> process_state" where
  "init key net s =
     (if key = [] \<or> \<not> prefix ''api-sentinel_pk_'' key then
        (Inl (ValueError [Text ''A valid Sentinel API key (api-sentinel_pk_...) is required.'']), s)
      else
        let s1 = config_update (\<lambda>c. c\<lparr>api_key := Some key\<rparr>) s;
            headers = [(''X-Sentinel-Key'', key)];
            req = GET (backend_url (SENTINEL_CONFIG s1) @ ''/keys/verify'') headers;
            s2 = s1\<lparr>requests_sent := requests_sent s1 @ [req]\<rparr>
        in case net req of
             RequestFailed e \<Rightarrow>
               (Inl (RuntimeError
                  [Text ''[API - SENTINEL] Could not connect to backend. Network error: '',
                   Text e]), s2)
           | Responded status_code b \<Rightarrow>
               if 400 \<le> status_code \<and> status_code < 600 then
                 (if status_code = 401 then
                    (Inl (ValueError
                       [Text ''Invalid Sentinel API key. Please check your key on the dashboard.'']),
                     s2)
                  else
                    (Inl (RuntimeError
                       [Text ''[API - SENTINEL] Could not connect to backend. Status: '',
                        Fmt_int status_code]), s2))
               else
                 case b of
                   NotJson e \<Rightarrow>
                     (Inl (RuntimeError
                        [Text ''[API - SENTINEL] Could not connect to backend. Network error: '',
                         Text e]), s2)
                 | Json data \<Rightarrow>
                     (case data_project_id data of
                        None \<Rightarrow> (Inl (KeyError ''project_id''), s2)
                      | Some p \<Rightarrow>
                          let s3 = config_update (\<lambda>c. c\<lparr>project_id := Some p\<rparr>) s2
                          in case data_monthly_budget data of
                               None \<Rightarrow> (Inl (KeyError ''monthly_budget''), s3)
                             | Some m \<Rightarrow>
                                 let s4 = config_update (\<lambda>c. c\<lparr>monthly_budget := m\<rparr>) s3
                                 in case data_current_usage data of
                                      None \<Rightarrow> (Inl (KeyError ''current_usage''), s4)
                                    | Some u \<Rightarrow>
                                        (Inr (),
                                         config_update (\<lambda>c. c\<lparr>current_usage := u\<rparr>) s4)))"

text \<open>
  A method of a client takes its arguments and the state (of the process, and of
  whatever else the client touches) and raises or returns a response.
\<close>

type_synonym ('a, 'w, 'r) py_method =
  "'a \<Rightarrow> process_state \<times> 'w \<Rightarrow> (py_exception + 'r) \<times> (process_state \<times> 'w)"

text \<open>
  \<open>_sentinel_wrapper\<close>, the closure that \<open>wrap\<close> builds over the original method
  of the client and the adapter. An exception of the original method passes through;
  one of the adapter, or of the addition to \<open>current_usage\<close>, is caught by
  \<open>except Exception\<close>, and what follows it in the \<open>try\<close> block is skipped. The
  reporting thread is started
  with the usage data and runs \<open>_report_usage_to_backend\<close> on its own: the start is
  recorded, what the thread does later is not part of the call.
\<close>

definition sentinel_wrapper :: "('a, 'w, 'r) py_method \<Rightarrow> 'r adapter \<Rightarrow> ('a, 'w, 'r) py_method" where
  "sentinel_wrapper original_method adapter args st =
     (let c = SENTINEL_CONFIG (fst st)
      in if num_ge (current_usage c) (monthly_budget c) then
           (Inl (BudgetExceededError
              [Text ''Project has exceeded its budget of '', Fmt_num (monthly_budget c),
               Text ''.'']), st)
         else
           case original_method args st of
             (Inl e, st') \<Rightarrow> (Inl e, st')
           | (Inr response, (s', w')) \<Rightarrow>
               (case adapter response of
                  Inl e \<Rightarrow> (Inr response, (s', w'))
                | Inr usage_data \<Rightarrow>
                    (case num_add (current_usage (SENTINEL_CONFIG s')) (cost usage_data) of
                       Inl e \<Rightarrow> (Inr response, (s', w'))
                     | Inr u \<Rightarrow>
                         let s1 = config_update (\<lambda>c. c\<lparr>current_usage := u\<rparr>) s';
                             s2 = s1\<lparr>threads_started := threads_started s1 @ [usage_data]\<rparr>
                         in (Inr response, (s2, w')))))"

text \<open>\<open>wrap\<close>: the client is the object whose \<open>chat.completions.create\<close> is replaced.\<close>

record ('a, 'w, 'r) client =
  create :: "('a, 'w, 'r) py_method"

definition wrap :: "('a, 'w, 'r) client \<Rightarrow> 'r adapter \<Rightarrow> process_state \<Rightarrow> py_exception + ('a, 'w, 'r) client" where
  "wrap client adapter s =
     (if (case api_key (SENTINEL_CONFIG s) of None \<Rightarrow> True | Some k \<Rightarrow> k = []) then
        Inl (RuntimeError
               [Text ''Sentinel SDK has not been initialized. Please call sentinel.init() first.''])
      else
        let original_method = create client
        in Inr (client\<lparr>create := sentinel_wrapper original_method adapter\<rparr>))"

section \<open>Callers\<close>

text \<open>
  The original method of a client that is not itself part of the SDK: it works on
  its own state and leaves the state of the SDK alone.
\<close>

definition external :: "('a \<Rightarrow> 'w \<Rightarrow> (py_exception + 'r) \<times> 'w) \<Rightarrow> ('a, 'w, 'r) py_method" where
  "external f args st = (case f args (snd st) of (r, w') \<Rightarrow> (r, (fst st, w')))"

text \<open>Such a method with a call counter (a spy) as its state.\<close>

definition counted :: "('a \<Rightarrow> py_exception + 'r) \<Rightarrow> ('a, nat, 'r) py_method" where
  "counted f = external (\<lambda>args n. (f args, Suc n))"

text \<open>
  A caller that invokes a method once for each element of a list of arguments,
  catching what it raises, and collects the outcomes.
\<close>

fun invoke_all :: "('a, 'w, 'r) py_method \<Rightarrow> 'a list \<Rightarrow> process_state \<times> 'w \<Rightarrow>
    (py_exception + 'r) list \<times> (process_state \<times> 'w)" where
  "invoke_all m [] st = ([], st)"
| "invoke_all m (args # rest) st =
     (case m args st of
        (r, st') \<Rightarrow> (case invoke_all m rest st' of (rs, st'') \<Rightarrow> (r # rs, st'')))"

text \<open>
  A caller that attempts \<open>init\<close> once for each element of a list (the key, and what
  the backend answers at that time), catching what it raises.
\<close>

fun init_all :: "(string \<times> (request \<Rightarrow> http_result)) list \<Rightarrow> process_state \<Rightarrow>
    (py_exception + unit) list \<times> process_state" where
  "init_all [] s = ([], s)"
| "init_all (attempt # rest) s =
     (case init (fst attempt) (snd attempt) s of
        (r, s') \<Rightarrow> (case init_all rest s' of (rs, s'') \<Rightarrow> (r # rs, s'')))"

text \<open>The key passes the format check of \<open>init\<close>.\<close>

definition well_formed_key :: "string \<Rightarrow> bool" where
  "well_formed_key key = (key \<noteq> [] \<and> prefix ''api-sentinel_pk_'' key)"

text \<open>The request that \<open>init\<close> sends in state \<open>s\<close> for a key.\<close>

definition verify_request :: "string \<Rightarrow> process_state \<Rightarrow> request" where
  "verify_request key s =
     GET (backend_url (SENTINEL_CONFIG s) @ ''/keys/verify'') [(''X-Sentinel-Key'', key)]"

text \<open>
  The verify step fails: the request raises, the status is an error status, or the
  body cannot be decoded.
\<close>

fun verify_fails :: "http_result \<Rightarrow> bool" where
  "verify_fails (RequestFailed e) = True"
| "verify_fails (Responded status_code (NotJson e)) = True"
| "verify_fails (Responded status_code (Json d)) = (400 \<le> status_code \<and> status_code < 600)"

section \<open>The cost formula of the spec\<close>





section \<open>Properties of the rounding\<close>

subsection \<open>The binary exponent\<close>

lemma pow2_pos: "0 < (2::rat) powi e"
  by simp

lemma pow2_less_imp: "(2::rat) powi a < 2 powi b \<Longrightarrow> a < b"
proof (rule ccontr)
  assume l: "(2::rat) powi a < 2 powi b" and "\<not> a < b"
  then have "b \<le> a" by simp
  then have "(2::rat) powi b \<le> 2 powi a"
    by (intro power_int_increasing) simp_all
  with l show False by simp
qed

lemma pow2_mono: "a \<le> b \<Longrightarrow> (2::rat) powi a \<le> 2 powi b"
  by (intro power_int_increasing) simp_all

lemma floor_log2_bounds:
  assumes "0 < x"
  shows "2 powi floor_log2 x \<le> x \<and> x < 2 powi (floor_log2 x + 1)"
proof (cases "1 \<le> x")
  case True
  define n where "n = \<lfloor>x\<rfloor>"
  have n1: "1 \<le> n" using True by (simp add: n_def)
  then have n0: "0 < n" by simp
  have b1: "1 \<le> bitlen n" using n0 by (simp add: bitlen_alt_def)
  from bitlen_bounds [OF n0]
  have lo: "2 ^ nat (bitlen n - 1) \<le> n" and hi: "n < 2 ^ nat (bitlen n)" by simp_all
  have f: "floor_log2 x = bitlen n - 1"
    using True by (simp add: floor_log2_def n_def)
  have "(2::rat) powi (bitlen n - 1) = 2 ^ nat (bitlen n - 1)"
    using b1 by (simp add: power_int_nonneg_exp)
  also have "\<dots> = of_int (2 ^ nat (bitlen n - 1))" by simp
  also have "\<dots> \<le> of_int n" using lo by (simp only: of_int_le_iff)
  also have "\<dots> \<le> x" by (simp add: n_def)
  finally have 1: "2 powi (bitlen n - 1) \<le> x" .
  have "n + 1 \<le> 2 ^ nat (bitlen n)" using hi by simp
  then have "(of_int (n + 1) :: rat) \<le> of_int (2 ^ nat (bitlen n))"
    by (simp only: of_int_le_iff)
  moreover have "x < of_int (n + 1)" using floor_correct [of x] by (simp add: n_def)
  ultimately have "x < of_int (2 ^ nat (bitlen n))" by simp
  also have "\<dots> = (2::rat) powi (bitlen n - 1 + 1)"
    using b1 by (simp add: power_int_nonneg_exp)
  finally have 2: "x < 2 powi (bitlen n - 1 + 1)" .
  from 1 2 f show ?thesis by simp
next
  case False
  define m where "m = \<lceil>1 / x\<rceil> - 1"
  have x1: "1 < 1 / x" using False assms by simp
  then have "1 < \<lceil>1 / x\<rceil>" by (simp add: less_ceiling_iff)
  then have m0: "0 < m" by (simp add: m_def)
  have b1: "1 \<le> bitlen m" using m0 by (simp add: bitlen_alt_def)
  from bitlen_bounds [OF m0]
  have lo: "2 ^ nat (bitlen m - 1) \<le> m" and hi: "m < 2 ^ nat (bitlen m)" by simp_all
  have f: "floor_log2 x = - bitlen m"
    using False by (simp add: floor_log2_def m_def)
  have "1 / x \<le> of_int (m + 1)" using ceiling_correct [of "1 / x"] by (simp add: m_def)
  also have "(of_int (m + 1) :: rat) \<le> of_int (2 ^ nat (bitlen m))"
    using hi by (simp only: of_int_le_iff)
  also have "\<dots> = (2::rat) powi (bitlen m)"
    using b1 by (simp add: power_int_nonneg_exp)
  finally have "1 / x \<le> 2 powi bitlen m" .
  then have "1 \<le> 2 powi bitlen m * x"
    using assms by (simp add: field_simps)
  then have 1: "2 powi (- bitlen m) \<le> x"
    by (simp add: power_int_minus field_simps)
  have "(2::rat) powi (bitlen m - 1) = of_int (2 ^ nat (bitlen m - 1))"
    using b1 by (simp add: power_int_nonneg_exp)
  also have "\<dots> \<le> of_int m" using lo by (simp only: of_int_le_iff)
  also have "of_int m < 1 / x"
    using ceiling_correct [of "1 / x"] by (simp add: m_def)
  finally have "2 powi (bitlen m - 1) < 1 / x" .
  then have "x * 2 powi (bitlen m - 1) < 1"
    using assms by (simp add: field_simps)
  moreover have "(2::rat) powi (- bitlen m + 1) * 2 powi (bitlen m - 1) = 1"
    using power_int_add [of "2::rat" "- bitlen m + 1" "bitlen m - 1"] by simp
  ultimately have "x * 2 powi (bitlen m - 1) < 2 powi (- bitlen m + 1) * 2 powi (bitlen m - 1)"
    by simp
  then have 2: "x < 2 powi (- bitlen m + 1)"
    by (simp only: mult_less_cancel_right_pos [OF pow2_pos])
  from 1 2 f show ?thesis by simp
qed

lemma floor_log2_unique:
  assumes "0 < x" "2 powi e \<le> x" "x < 2 powi (e + 1)"
  shows "floor_log2 x = e"
proof -
  from floor_log2_bounds [OF assms(1)]
  have lo: "2 powi floor_log2 x \<le> x" and hi: "x < 2 powi (floor_log2 x + 1)" by simp_all
  from lo assms(3) have "(2::rat) powi floor_log2 x < 2 powi (e + 1)" by simp
  then have "floor_log2 x < e + 1" by (rule pow2_less_imp)
  moreover from assms(2) hi have "(2::rat) powi e < 2 powi (floor_log2 x + 1)" by simp
  then have "e < floor_log2 x + 1" by (rule pow2_less_imp)
  ultimately show ?thesis by simp
qed

lemma floor_log2_mono:
  assumes "0 < x" "x \<le> y"
  shows "floor_log2 x \<le> floor_log2 y"
proof -
  have y: "0 < y" using assms by simp
  from floor_log2_bounds [OF assms(1)] have "2 powi floor_log2 x \<le> x" by simp
  also note assms(2)
  also from floor_log2_bounds [OF y] have "y < 2 powi (floor_log2 y + 1)" by simp
  finally have "floor_log2 x < floor_log2 y + 1" by (rule pow2_less_imp)
  then show ?thesis by simp
qed

subsection \<open>Rounding to an integer\<close>

lemma rhe_of_int: "round_half_even (of_int k) = k"
  by (simp add: round_half_even_def)

lemma rhe_ge_floor: "\<lfloor>r\<rfloor> \<le> round_half_even r"
  by (simp add: round_half_even_def Let_def)

lemma rhe_le_floor1: "round_half_even r \<le> \<lfloor>r\<rfloor> + 1"
  by (simp add: round_half_even_def Let_def)

lemma rhe_mono:
  assumes "r \<le> s"
  shows "round_half_even r \<le> round_half_even s"
proof (cases "\<lfloor>r\<rfloor> = \<lfloor>s\<rfloor>")
  case True
  then have "r - of_int \<lfloor>r\<rfloor> \<le> s - of_int \<lfloor>s\<rfloor>"
    using assms by simp
  with True show ?thesis
    by (auto simp: round_half_even_def Let_def)
next
  case False
  moreover have "\<lfloor>r\<rfloor> \<le> \<lfloor>s\<rfloor>" using assms by (rule floor_mono)
  ultimately have "\<lfloor>r\<rfloor> + 1 \<le> \<lfloor>s\<rfloor>" by simp
  with rhe_le_floor1 [of r] rhe_ge_floor [of s] show ?thesis by simp
qed

lemma rhe_ge_int: "of_int k \<le> r \<Longrightarrow> k \<le> round_half_even r"
  using rhe_mono [of "of_int k" r] by (simp add: rhe_of_int)

lemma rhe_le_int: "r \<le> of_int k \<Longrightarrow> round_half_even r \<le> k"
  using rhe_mono [of r "of_int k"] by (simp add: rhe_of_int)

lemma ulp_pos: "0 < ulp x"
  by (simp add: ulp_def)

lemma round64_pos: "0 < x \<Longrightarrow> round64 x = of_int (round_half_even (x / ulp x)) * ulp x"
  by (simp add: round64_def)

lemma round64_minus: "round64 (- x) = - round64 x"
  by (simp add: round64_def sgn_minus)

lemma round64_nonneg: "0 \<le> x \<Longrightarrow> 0 \<le> round64 x"
proof (cases "x = 0")
  case True
  then show ?thesis by (simp add: round64_def)
next
  case False
  assume "0 \<le> x"
  with False have x: "0 < x" by simp
  have "0 \<le> x / ulp x" using x ulp_pos [of x] by simp
  then have "of_int 0 \<le> x / ulp x" by simp
  then have "0 \<le> round_half_even (x / ulp x)" by (rule rhe_ge_int)
  then show ?thesis using x ulp_pos [of x] by (simp add: round64_pos)
qed

text \<open>The exponent that the rounding uses.\<close>

lemma ulp_eq:
  assumes "0 < x" "2 powi e \<le> x" "x < 2 powi (e + 1)"
  shows "ulp x = 2 powi (max e (- 1022) - 52)"
  using floor_log2_unique [OF assms] by (simp add: ulp_def)

lemma pow2_split: "(2::rat) powi (a + b) = 2 powi a * 2 powi b"
  by (simp add: power_int_add)

lemma pow2_53: "2 powi 53 * 2 powi (e - 52) = (2::rat) powi (e + 1)"
  using pow2_split [of 53 "e - 52"] by (simp add: add.commute)

lemma pow2_52: "2 powi 52 * 2 powi (e - 52) = (2::rat) powi e"
  using pow2_split [of 52 "e - 52"] by simp

lemma round64_mono_pos:
  assumes "0 < x" "x \<le> y"
  shows "round64 x \<le> round64 y"
proof -
  have y: "0 < y" using assms by simp
  define ex where "ex = max (floor_log2 x) (- 1022)"
  define ey where "ey = max (floor_log2 y) (- 1022)"
  have ux: "ulp x = 2 powi (ex - 52)" and uy: "ulp y = 2 powi (ey - 52)"
    by (simp_all add: ulp_def ex_def ey_def)
  have le: "ex \<le> ey"
    using floor_log2_mono [OF assms] by (simp add: ex_def ey_def)
  show ?thesis
  proof (cases "ex = ey")
    case True
    then have u: "ulp x = ulp y" by (simp add: ux uy)
    have "x / ulp y \<le> y / ulp y"
      using assms(2) ulp_pos [of y] by (simp add: divide_right_mono)
    then have "round_half_even (x / ulp y) \<le> round_half_even (y / ulp y)"
      by (rule rhe_mono)
    then have "(of_int (round_half_even (x / ulp y)) :: rat) \<le> of_int (round_half_even (y / ulp y))"
      by (simp only: of_int_le_iff)
    then show ?thesis
      using ulp_pos [of y] by (simp add: round64_pos assms(1) y u mult_right_mono)
  next
    case False
    with le have lt: "ex < ey" by simp
    then have eyf: "ey = floor_log2 y" by (auto simp: ex_def ey_def)
    have fx: "floor_log2 x \<le> ex" by (simp add: ex_def)
    from floor_log2_bounds [OF assms(1)] have "x < 2 powi (floor_log2 x + 1)" by simp
    also have "\<dots> \<le> 2 powi (ex + 1)" using fx by (intro pow2_mono) simp
    also have "\<dots> = 2 powi 53 * 2 powi (ex - 52)"
      by (simp only: pow2_53)
    finally have "x / ulp x < 2 powi 53"
      using ulp_pos [of x] by (simp add: ux field_simps)
    then have "x / ulp x \<le> of_int (2 ^ 53)" by simp
    then have "round_half_even (x / ulp x) \<le> 2 ^ 53" by (rule rhe_le_int)
    then have "(of_int (round_half_even (x / ulp x)) :: rat) \<le> of_int (2 ^ 53)"
      by (simp only: of_int_le_iff)
    then have "round64 x \<le> of_int (2 ^ 53) * ulp x"
      using ulp_pos [of x] by (simp only: round64_pos [OF assms(1)] mult_right_mono)
    also have "\<dots> = 2 powi 53 * 2 powi (ex - 52)" by (simp add: ux)
    also have "\<dots> = 2 powi (ex + 1)" by (simp only: pow2_53)
    also have "\<dots> \<le> 2 powi ey" using lt by (intro pow2_mono) simp
    finally have a: "round64 x \<le> 2 powi ey" .
    from floor_log2_bounds [OF y] have "2 powi ey \<le> y" by (simp add: eyf)
    moreover have "(2::rat) powi ey = 2 powi 52 * 2 powi (ey - 52)"
      by (simp only: pow2_52)
    ultimately have "2 powi 52 \<le> y / ulp y"
      using ulp_pos [of y] by (simp add: uy field_simps)
    then have "of_int (2 ^ 52) \<le> y / ulp y" by simp
    then have "2 ^ 52 \<le> round_half_even (y / ulp y)" by (rule rhe_ge_int)
    then have "(of_int (2 ^ 52) :: rat) \<le> of_int (round_half_even (y / ulp y))"
      by (simp only: of_int_le_iff)
    then have "of_int (2 ^ 52) * ulp y \<le> round64 y"
      using ulp_pos [of y] by (simp only: round64_pos [OF y] mult_right_mono)
    moreover have "of_int (2 ^ 52) * ulp y = 2 powi ey"
      using pow2_52 [of ey] by (simp add: uy)
    ultimately have "2 powi ey \<le> round64 y" by simp
    with a show ?thesis by simp
  qed
qed

lemma round64_mono:
  assumes "x \<le> y"
  shows "round64 x \<le> round64 y"
proof -
  consider "0 < x" | "x \<le> 0" "0 \<le> y" | "y < 0" by linarith
  then show ?thesis
  proof cases
    case 1
    then show ?thesis using assms by (rule round64_mono_pos)
  next
    case 2
    have "round64 x \<le> 0"
      using round64_nonneg [of "- x"] 2(1) by (simp add: round64_minus)
    moreover have "0 \<le> round64 y" using 2(2) by (rule round64_nonneg)
    ultimately show ?thesis by simp
  next
    case 3
    then have "0 < - y" "- y \<le> - x" using assms by simp_all
    then have "round64 (- y) \<le> round64 (- x)" by (rule round64_mono_pos)
    then show ?thesis by (simp add: round64_minus)
  qed
qed

subsection \<open>Rounding twice\<close>

lemma round64_zero: "round64 0 = 0"
  by (simp add: round64_def)

lemma round64_fix:
  assumes "0 < y" "y = of_int m * ulp y"
  shows "round64 y = y"
proof -
  have "y / ulp y = of_int m"
    using assms(2) ulp_pos [of y] by (simp add: field_simps)
  then have "round_half_even (y / ulp y) = m" by (simp add: rhe_of_int)
  then show ?thesis using assms by (simp add: round64_pos)
qed

lemma round64_idem_pos:
  assumes "0 < x"
  shows "round64 (round64 x) = round64 x"
proof -
  define e where "e = max (floor_log2 x) (- 1022)"
  define m where "m = round_half_even (x / ulp x)"
  define y where "y = round64 x"
  have u: "ulp x = 2 powi (e - 52)" by (simp add: ulp_def e_def)
  have ym: "y = of_int m * 2 powi (e - 52)"
    by (simp add: y_def m_def round64_pos assms u)
  have e_lo: "- 1022 \<le> e" by (simp add: e_def)
  have y0: "0 \<le> y" using assms by (simp add: y_def round64_nonneg)
  have "x < 2 powi (floor_log2 x + 1)"
    using floor_log2_bounds [OF assms] by simp
  also have "\<dots> \<le> 2 powi (e + 1)" by (intro pow2_mono) (simp add: e_def)
  also have "\<dots> = 2 powi 53 * 2 powi (e - 52)" by (simp only: pow2_53)
  finally have "x / ulp x < 2 powi 53"
    using ulp_pos [of x] by (simp add: u field_simps)
  then have "x / ulp x \<le> of_int (2 ^ 53)" by simp
  then have m_hi: "m \<le> 2 ^ 53" unfolding m_def by (rule rhe_le_int)
  show ?thesis
  proof (cases "y = 0")
    case True
    then show ?thesis by (simp add: y_def [symmetric] round64_zero)
  next
    case False
    with y0 have yp: "0 < y" by simp
    have "round64 y = y"
    proof (cases "m = 2 ^ 53")
      case True
      then have y1: "y = 2 powi (e + 1)"
        using pow2_53 [of e] by (simp add: ym)
      have "y < 2 powi (e + 1 + 1)"
        unfolding y1 by (intro power_int_strict_increasing) simp_all
      with y1 have "ulp y = 2 powi (max (e + 1) (- 1022) - 52)"
        by (intro ulp_eq [OF yp]) simp_all
      also have "max (e + 1) (- 1022) = e + 1" using e_lo by simp
      finally have uy: "ulp y = 2 powi (e + 1 - 52)" .
      have "of_int (2 ^ 52) * ulp y = 2 powi 52 * 2 powi (e + 1 - 52)"
        by (simp only: uy) simp
      also have "\<dots> = 2 powi (e + 1)" by (simp only: pow2_52)
      finally have "y = of_int (2 ^ 52) * ulp y" by (simp only: y1)
      with yp show ?thesis by (rule round64_fix)
    next
      case False
      with m_hi have "m + 1 \<le> 2 ^ 53" by simp
      then have "(of_int (m + 1) :: rat) \<le> of_int (2 ^ 53)" by (simp only: of_int_le_iff)
      then have "(of_int m :: rat) < 2 powi 53" by simp
      then have "y < 2 powi 53 * 2 powi (e - 52)"
        unfolding ym by (simp only: mult_less_cancel_right_pos [OF pow2_pos])
      then have y_hi: "y < 2 powi (e + 1)" by (simp only: pow2_53)
      have "ulp y = 2 powi (e - 52)"
      proof (cases "2 powi e \<le> y")
        case True
        from ulp_eq [OF yp True y_hi] e_lo show ?thesis by simp
      next
        case False
        then have lt: "y < 2 powi e" by simp
        have "2 powi floor_log2 y \<le> y" using floor_log2_bounds [OF yp] by simp
        with lt have "(2::rat) powi floor_log2 y < 2 powi e" by simp
        then have fy: "floor_log2 y < e" by (rule pow2_less_imp)
        have "e = - 1022"
        proof (rule ccontr)
          assume "e \<noteq> - 1022"
          then have ef: "e = floor_log2 x" using e_lo by (auto simp: e_def)
          have "2 powi e \<le> x" using floor_log2_bounds [OF assms] by (simp add: ef)
          moreover have "(2::rat) powi e = 2 powi 52 * 2 powi (e - 52)" by (simp only: pow2_52)
          ultimately have "2 powi 52 \<le> x / ulp x"
            using ulp_pos [of x] by (simp add: u field_simps)
          then have "of_int (2 ^ 52) \<le> x / ulp x" by simp
          then have "2 ^ 52 \<le> m" unfolding m_def by (rule rhe_ge_int)
          then have "(of_int (2 ^ 52) :: rat) \<le> of_int m" by (simp only: of_int_le_iff)
          then have "of_int (2 ^ 52) * 2 powi (e - 52) \<le> y"
            unfolding ym by (simp only: mult_le_cancel_right_pos [OF pow2_pos])
          then have "2 powi e \<le> y" using pow2_52 [of e] by simp
          with lt show False by simp
        qed
        with fy show ?thesis by (simp add: ulp_def)
      qed
      with ym have "y = of_int m * ulp y" by simp
      with yp show ?thesis by (rule round64_fix)
    qed
    then show ?thesis by (simp add: y_def)
  qed
qed

lemma round64_idem: "round64 (round64 x) = round64 x"
proof -
  consider "x = 0" | "0 < x" | "0 < - x" by linarith
  then show ?thesis
  proof cases
    case 1
    then show ?thesis by (simp add: round64_zero)
  next
    case 2
    then show ?thesis by (rule round64_idem_pos)
  next
    case 3
    then have "round64 (round64 (- x)) = round64 (- x)" by (rule round64_idem_pos)
    then show ?thesis by (simp add: round64_minus)
  qed
qed

lemma fl_cases:
  "fl x = (if 2 ^ 1024 \<le> round64 x then PosInf
           else if round64 x \<le> - (2 ^ 1024) then NegInf else Finite (round64 x))"
  by (simp add: fl_def Let_def)

lemma is_float64_fl: "is_float64 (fl x)"
  by (simp add: is_float64_def fl_cases round64_idem)

lemma is_float64_round64: "is_float64 (Finite r) \<Longrightarrow> round64 r = r"
  by (simp add: is_float64_def fl_cases split: if_splits)

lemma is_float64_range: "is_float64 (Finite r) \<Longrightarrow> - (2 ^ 1024) < r \<and> r < 2 ^ 1024"
  by (simp add: is_float64_def fl_cases split: if_splits)

lemma fl_nonneg: "0 \<le> x \<Longrightarrow> float_le (Finite 0) (fl x)"
  using round64_nonneg [of x] by (simp add: fl_cases)

text \<open>Evaluation of a rounding, given the binary exponent.\<close>

lemma round64_eval:
  assumes "0 < x" "2 powi e \<le> x" "x < 2 powi (e + 1)" "- 1022 \<le> e"
  shows "round64 x = of_int (round_half_even (x / 2 powi (e - 52))) * 2 powi (e - 52)"
proof -
  have "ulp x = 2 powi (e - 52)"
    using ulp_eq [OF assms(1-3)] assms(4) by simp
  then show ?thesis by (simp add: round64_pos assms(1))
qed

subsection \<open>Evaluation\<close>

lemma round64_pow2:
  assumes "- 1022 \<le> k"
  shows "round64 (2 powi k) = 2 powi k"
proof -
  have p: "0 < (2::rat) powi k" by (rule pow2_pos)
  have "(2::rat) powi k < 2 powi (k + 1)"
    by (intro power_int_strict_increasing) simp_all
  then have "ulp (2 powi k) = 2 powi (max k (- 1022) - 52)"
    by (intro ulp_eq [OF p]) simp_all
  then have u: "ulp (2 powi k) = 2 powi (k - 52)" using assms by simp
  have "of_int (2 ^ 52) * ulp (2 powi k) = 2 powi 52 * 2 powi (k - 52)"
    by (simp only: u) simp
  also have "\<dots> = 2 powi k" by (simp only: pow2_52)
  finally have "2 powi k = of_int (2 ^ 52) * ulp (2 powi k)" by simp
  with p show ?thesis by (rule round64_fix)
qed

lemma rhe_near:
  assumes "\<bar>x - of_int m\<bar> < 1 / 2"
  shows "round_half_even x = m"
proof (cases "of_int m \<le> x")
  case True
  with assms have "x < of_int m + 1" by simp
  with True have "\<lfloor>x\<rfloor> = m" by (intro floor_unique) simp_all
  with assms True show ?thesis by (simp add: round_half_even_def Let_def)
next
  case False
  then have "of_int (m - 1) \<le> x" "x < of_int (m - 1) + 1" using assms by simp_all
  then have "\<lfloor>x\<rfloor> = m - 1" by (intro floor_unique)
  with assms False show ?thesis by (simp add: round_half_even_def Let_def)
qed

lemma rhe_tie:
  assumes "\<bar>x - of_int m\<bar> = 1 / 2" "even m"
  shows "round_half_even x = m"
proof (cases "of_int m \<le> x")
  case True
  with assms have x: "x = of_int m + 1 / 2" by simp
  then have "\<lfloor>x\<rfloor> = m" by (intro floor_unique) simp_all
  with x assms(2) show ?thesis by (simp add: round_half_even_def Let_def)
next
  case False
  with assms have x: "x = of_int (m - 1) + 1 / 2" by simp
  then have "\<lfloor>x\<rfloor> = m - 1" by (intro floor_unique) simp_all
  with x assms(2) show ?thesis by (simp add: round_half_even_def Let_def)
qed

lemma fl_eval:
  assumes "0 < x" "2 powi e \<le> x" "x < 2 powi (e + 1)" "- 1022 \<le> e" "e \<le> 1022"
  shows "fl x = Finite (of_int (round_half_even (x / 2 powi (e - 52))) * 2 powi (e - 52))"
proof -
  have "round64 x \<le> round64 (2 powi (e + 1))"
    using assms(3) by (intro round64_mono) simp
  also have "\<dots> = 2 powi (e + 1)" using assms(4) by (intro round64_pow2) simp
  also have "\<dots> \<le> 2 powi 1023" using assms(5) by (intro pow2_mono) simp
  also have "\<dots> < 2 ^ 1024" by simp
  finally have hi: "round64 x < 2 ^ 1024" .
  have "0 \<le> round64 x" using assms(1) by (intro round64_nonneg) simp
  then have lo: "\<not> round64 x \<le> - (2 ^ 1024)" by simp
  from hi lo show ?thesis
    by (simp add: fl_cases round64_eval [OF assms(1-4)] del: power_int_numeral)
qed

lemma fl_near:
  assumes "0 < x" "2 powi e \<le> x" "x < 2 powi (e + 1)" "- 1022 \<le> e" "e \<le> 1022"
    and "\<bar>x / 2 powi (e - 52) - of_int m\<bar> < 1 / 2"
    and "y = of_int m * 2 powi (e - 52)"
  shows "fl x = Finite y"
  using fl_eval [OF assms(1-5)] rhe_near [OF assms(6)] assms(7) by simp

lemma fl_tie:
  assumes "0 < x" "2 powi e \<le> x" "x < 2 powi (e + 1)" "- 1022 \<le> e" "e \<le> 1022"
    and "\<bar>x / 2 powi (e - 52) - of_int m\<bar> = 1 / 2" "even m"
    and "y = of_int m * 2 powi (e - 52)"
  shows "fl x = Finite y"
  using fl_eval [OF assms(1-5)] rhe_tie [OF assms(6,7)] assms(8) by simp

section \<open>The session initializer\<close>

text \<open>
  C7. When the key is empty or does not start with \<open>api-sentinel_pk_\<close>, \<open>init\<close>
  raises the \<open>ValueError\<close> that asks for a valid key, whatever the backend would
  answer, and the state is as before: no request has been sent.
\<close>

theorem init_bad_key:
  assumes "key = [] \<or> \<not> prefix ''api-sentinel_pk_'' key"
  shows "init key net s =
           (Inl (ValueError [Text ''A valid Sentinel API key (api-sentinel_pk_...) is required.'']), s)"
  using assms by (simp add: init_def)

theorem init_bad_key_witness:
  "init ''sk-123'' (\<lambda>r. RequestFailed ''unreachable'') initial_state =
     (Inl (ValueError [Text ''A valid Sentinel API key (api-sentinel_pk_...) is required.'']),
      initial_state)
   \<and> requests_sent initial_state = []"
  using init_bad_key [of "''sk-123''" "\<lambda>r. RequestFailed ''unreachable''" initial_state]
  by (simp add: initial_state_def)

text \<open>
  C9. \<open>init\<close> is not atomic. When the key passes the format check and the verify
  step then fails, \<open>init\<close> raises, the key is already stored in \<open>api_key\<close>, and
  \<open>project_id\<close>, \<open>monthly_budget\<close> and \<open>current_usage\<close> are as before.
\<close>

theorem init_failure_keeps_key:
  assumes "well_formed_key key"
    and "verify_fails (net (verify_request key s))"
  shows "isl (fst (init key net s))
    \<and> api_key (SENTINEL_CONFIG (snd (init key net s))) = Some key
    \<and> project_id (SENTINEL_CONFIG (snd (init key net s))) = project_id (SENTINEL_CONFIG s)
    \<and> monthly_budget (SENTINEL_CONFIG (snd (init key net s))) = monthly_budget (SENTINEL_CONFIG s)
    \<and> current_usage (SENTINEL_CONFIG (snd (init key net s))) = current_usage (SENTINEL_CONFIG s)"
proof (cases "net (verify_request key s)")
  case (RequestFailed e)
  with assms(1) show ?thesis
    by (simp add: init_def well_formed_key_def verify_request_def config_update_def Let_def)
next
  case (Responded status_code b)
  show ?thesis
  proof (cases b)
    case (NotJson e)
    with Responded assms(1) show ?thesis
      by (simp add: init_def well_formed_key_def verify_request_def config_update_def Let_def)
  next
    case (Json d)
    with Responded assms show ?thesis
      by (simp add: init_def well_formed_key_def verify_request_def config_update_def Let_def)
  qed
qed

theorem init_failure_keeps_key_witness:
  "well_formed_key ''api-sentinel_pk_abc''
   \<and> verify_fails (Responded 503 (NotJson ''Service Unavailable''))
   \<and> isl (fst (init ''api-sentinel_pk_abc'' (\<lambda>r. Responded 503 (NotJson ''Service Unavailable''))
                  initial_state))
   \<and> SENTINEL_CONFIG (snd (init ''api-sentinel_pk_abc''
                              (\<lambda>r. Responded 503 (NotJson ''Service Unavailable'')) initial_state))
       = initial_config\<lparr>api_key := Some ''api-sentinel_pk_abc''\<rparr>"
proof -
  let ?net = "\<lambda>r::request. Responded 503 (NotJson ''Service Unavailable'')"
  have k: "well_formed_key ''api-sentinel_pk_abc''"
    by (simp add: well_formed_key_def)
  have v: "verify_fails (?net (verify_request ''api-sentinel_pk_abc'' initial_state))"
    by simp
  have c: "SENTINEL_CONFIG (snd (init ''api-sentinel_pk_abc'' ?net initial_state))
             = initial_config\<lparr>api_key := Some ''api-sentinel_pk_abc''\<rparr>"
    by (simp add: init_def initial_state_def initial_config_def config_update_def Let_def)
  from init_failure_keeps_key [of "''api-sentinel_pk_abc''" ?net initial_state, OF k v] k c
  show ?thesis by simp
qed

section \<open>The interceptor\<close>

lemma num_lt_not_ge: "num_lt x y \<Longrightarrow> \<not> num_ge x y"
  by (simp add: num_lt_def num_ge_def float_lt_def)

text \<open>
  C1. When \<open>current_usage >= monthly_budget\<close>, the wrapped method raises
  \<open>BudgetExceededError\<close>, whose message carries the value of \<open>monthly_budget\<close>, and
  nothing else happens: the state of the SDK and the state of the client are as
  before, whatever the original method is. The original method is not invoked.
\<close>

theorem budget_gate_blocks:
  assumes "num_ge (current_usage (SENTINEL_CONFIG s)) (monthly_budget (SENTINEL_CONFIG s))"
  shows "sentinel_wrapper original_method adapter args (s, w) =
           (Inl (BudgetExceededError
              [Text ''Project has exceeded its budget of '',
               Fmt_num (monthly_budget (SENTINEL_CONFIG s)), Text ''.'']), (s, w))"
  using assms by (simp add: sentinel_wrapper_def)

theorem budget_gate_blocks_witness:
  "num_ge (current_usage (SENTINEL_CONFIG initial_state))
          (monthly_budget (SENTINEL_CONFIG initial_state))
   \<and> sentinel_wrapper (counted (\<lambda>args::unit. Inr \<lparr>usage = \<lparr>prompt_tokens = 7, completion_tokens = 5\<rparr>,
                                                  model = ''gpt-4o''\<rparr>))
        get_usage_and_cost () (initial_state, 0) =
        (Inl (BudgetExceededError
           [Text ''Project has exceeded its budget of '', Fmt_num (PyInt 0), Text ''.'']),
         (initial_state, 0))
   \<and> snd (snd (counted (\<lambda>args::unit. Inr \<lparr>usage = \<lparr>prompt_tokens = 7, completion_tokens = 5\<rparr>,
                                             model = ''gpt-4o''\<rparr>) () (initial_state, 0))) = 1"
proof -
  have g: "num_ge (current_usage (SENTINEL_CONFIG initial_state))
                  (monthly_budget (SENTINEL_CONFIG initial_state))"
    by (simp add: initial_state_def initial_config_def num_ge_def)
  have m: "monthly_budget (SENTINEL_CONFIG initial_state) = PyInt 0"
    by (simp add: initial_state_def initial_config_def)
  from budget_gate_blocks [OF g] g m show ?thesis
    by (simp add: counted_def external_def)
qed

text \<open>
  C3. When the adapter raises, on the response that the original method returned,
  the wrapped method returns that response and the state is the one the original
  method left: \<open>current_usage\<close> is not changed and nothing is raised.
\<close>

theorem adapter_failure_is_contained:
  assumes "\<not> num_ge (current_usage (SENTINEL_CONFIG s)) (monthly_budget (SENTINEL_CONFIG s))"
    and "original_method args (s, w) = (Inr response, st')"
    and "adapter response = Inl e"
  shows "sentinel_wrapper original_method adapter args (s, w) = (Inr response, st')"
  using assms by (cases st') (simp add: sentinel_wrapper_def)

theorem adapter_failure_is_contained_witness:
  "\<not> num_ge (PyInt 0) (PyInt 10)
   \<and> sentinel_wrapper
        (counted (\<lambda>args::unit. Inr \<lparr>usage = \<lparr>prompt_tokens = 7, completion_tokens = 5\<rparr>,
                                      model = ''gpt-4o''\<rparr>))
        base_get_usage_and_cost ()
        (initial_state\<lparr>SENTINEL_CONFIG := initial_config\<lparr>monthly_budget := PyInt 10\<rparr>\<rparr>, 0) =
      (Inr \<lparr>usage = \<lparr>prompt_tokens = 7, completion_tokens = 5\<rparr>, model = ''gpt-4o''\<rparr>,
       (initial_state\<lparr>SENTINEL_CONFIG := initial_config\<lparr>monthly_budget := PyInt 10\<rparr>\<rparr>, 1))"
proof -
  let ?s = "initial_state\<lparr>SENTINEL_CONFIG := initial_config\<lparr>monthly_budget := PyInt 10\<rparr>\<rparr>"
  let ?r = "\<lparr>usage = \<lparr>prompt_tokens = 7, completion_tokens = 5\<rparr>, model = ''gpt-4o''\<rparr>"
  have g: "\<not> num_ge (current_usage (SENTINEL_CONFIG ?s)) (monthly_budget (SENTINEL_CONFIG ?s))"
    by (simp add: initial_config_def num_ge_def)
  have o: "counted (\<lambda>args::unit. Inr ?r) () (?s, 0) = (Inr ?r, (?s, 1))"
    by (simp add: counted_def external_def)
  have a: "base_get_usage_and_cost ?r =
             Inl (NotImplementedError
                    [Text ''Each adapter must implement the 'get_usage_and_cost' method.''])"
    by (simp add: base_get_usage_and_cost_def)
  from adapter_failure_is_contained
         [where original_method = "counted (\<lambda>args::unit. Inr ?r)" and args = "()" and s = ?s
            and w = 0 and adapter = base_get_usage_and_cost, OF g o a]
  show ?thesis
    by (simp add: num_ge_def)
qed

section \<open>Initialisation and wrapping\<close>

lemma api_key_init:
  "api_key (SENTINEL_CONFIG (snd (init key net s))) =
     (if well_formed_key key then Some key else api_key (SENTINEL_CONFIG s))"
  by (simp add: init_def well_formed_key_def config_update_def Let_def
      split: http_result.splits body.splits option.splits)

lemma api_key_init_all:
  "api_key (SENTINEL_CONFIG (snd (init_all attempts s))) = None \<longleftrightarrow>
     api_key (SENTINEL_CONFIG s) = None \<and> (\<forall>a \<in> set attempts. \<not> well_formed_key (fst a))"
proof (induction attempts arbitrary: s)
  case Nil
  show ?case by simp
next
  case (Cons a rest)
  have "snd (init_all (a # rest) s) = snd (init_all rest (snd (init (fst a) (snd a) s)))"
    by (simp split: prod.splits)
  then show ?case
    using Cons.IH [of "snd (init (fst a) (snd a) s)"] by (auto simp: api_key_init)
qed

lemma api_key_init_all_nonempty:
  "api_key (SENTINEL_CONFIG s) \<noteq> Some [] \<Longrightarrow>
   api_key (SENTINEL_CONFIG (snd (init_all attempts s))) \<noteq> Some []"
proof (induction attempts arbitrary: s)
  case Nil
  then show ?case by simp
next
  case (Cons a rest)
  have "snd (init_all (a # rest) s) = snd (init_all rest (snd (init (fst a) (snd a) s)))"
    by (simp split: prod.splits)
  moreover have "api_key (SENTINEL_CONFIG (snd (init (fst a) (snd a) s))) \<noteq> Some []"
    using Cons.prems by (auto simp: api_key_init well_formed_key_def)
  ultimately show ?case
    using Cons.IH by simp
qed

text \<open>
  What the guard of \<open>wrap\<close> tests after a sequence of \<open>init\<close> attempts from the
  initial state: whether some attempt had a key that passes the format check. Such an
  attempt has stored its key, whether it then failed or not.
\<close>

lemma wrap_fails_iff_no_key:
  "wrap client adapter (snd (init_all attempts initial_state)) =
     Inl (RuntimeError
            [Text ''Sentinel SDK has not been initialized. Please call sentinel.init() first.''])
   \<longleftrightarrow> (\<forall>a \<in> set attempts. \<not> well_formed_key (fst a))"
proof -
  have i: "api_key (SENTINEL_CONFIG initial_state) = None"
    by (simp add: initial_state_def initial_config_def)
  then have n: "api_key (SENTINEL_CONFIG (snd (init_all attempts initial_state))) \<noteq> Some []"
    by (intro api_key_init_all_nonempty) simp
  show ?thesis
    using api_key_init_all [of attempts initial_state] i n
    by (auto simp: wrap_def Let_def split: option.splits)
qed

text \<open>
  C4. A \<open>wrap\<close> that follows only failed \<open>init\<close> calls should raise the
  \<open>RuntimeError\<close> that says the SDK has not been initialized. It does not when the key
  of a failed call had the prefix: \<open>init\<close> stores the key before it verifies it, and the
  guard of \<open>wrap\<close> looks at the stored key only. Here \<open>init\<close> raises, once because the
  backend cannot be reached and once because the backend answers 401, and \<open>wrap\<close>
  returns the client with its method replaced.
\<close>

theorem wrap_after_failed_init:
  "fst (init_all [(''api-sentinel_pk_abc'', \<lambda>r. RequestFailed ''timed out'')] initial_state) =
     [Inl (RuntimeError
             [Text ''[API - SENTINEL] Could not connect to backend. Network error: '',
              Text ''timed out''])]
   \<and> wrap \<lparr>create = counted (\<lambda>args::unit. Inl (Other ''down'') :: py_exception + response)\<rparr>
        get_usage_and_cost
        (snd (init_all [(''api-sentinel_pk_abc'', \<lambda>r. RequestFailed ''timed out'')]
                initial_state)) =
       Inr \<lparr>create = sentinel_wrapper
                        (counted (\<lambda>args::unit. Inl (Other ''down'') :: py_exception + response))
                        get_usage_and_cost\<rparr>
   \<and> fst (init_all [(''api-sentinel_pk_abc'', \<lambda>r. Responded 401 (NotJson ''Unauthorized''))]
            initial_state) =
     [Inl (ValueError
             [Text ''Invalid Sentinel API key. Please check your key on the dashboard.''])]
   \<and> wrap \<lparr>create = counted (\<lambda>args::unit. Inl (Other ''down'') :: py_exception + response)\<rparr>
        get_usage_and_cost
        (snd (init_all [(''api-sentinel_pk_abc'', \<lambda>r. Responded 401 (NotJson ''Unauthorized''))]
                initial_state)) =
       Inr \<lparr>create = sentinel_wrapper
                        (counted (\<lambda>args::unit. Inl (Other ''down'') :: py_exception + response))
                        get_usage_and_cost\<rparr>"
  by (simp add: init_def wrap_def initial_state_def initial_config_def config_update_def Let_def)

text \<open>
  C8, as the code has it. For a key that passes the format check: a response with
  status 401 makes \<open>init\<close> raise the \<open>ValueError\<close> that says the key is invalid; a
  response with any other status from 400 to 599 makes it raise the \<open>RuntimeError\<close>
  that gives the status, and a request that fails the \<open>RuntimeError\<close> that gives the
  network error; a response with a status outside 400 to 599 (a 2xx among them) whose
  body is an object with the three fields makes \<open>init\<close> store them, next to the key,
  and return.
\<close>

theorem init_verify_outcomes:
  assumes "well_formed_key key"
  shows "(net (verify_request key s) = Responded 401 b \<longrightarrow>
            fst (init key net s) =
              Inl (ValueError
                     [Text ''Invalid Sentinel API key. Please check your key on the dashboard.'']))
    \<and> (net (verify_request key s) = Responded status_code b'
          \<and> 400 \<le> status_code \<and> status_code < 600 \<and> status_code \<noteq> 401 \<longrightarrow>
            fst (init key net s) =
              Inl (RuntimeError
                     [Text ''[API - SENTINEL] Could not connect to backend. Status: '',
                      Fmt_int status_code]))
    \<and> (net (verify_request key s) = RequestFailed e \<longrightarrow>
            fst (init key net s) =
              Inl (RuntimeError
                     [Text ''[API - SENTINEL] Could not connect to backend. Network error: '',
                      Text e]))
    \<and> (net (verify_request key s) =
            Responded ok_code (Json \<lparr>data_project_id = Some p, data_monthly_budget = Some m,
                                     data_current_usage = Some u\<rparr>)
          \<and> \<not> (400 \<le> ok_code \<and> ok_code < 600) \<longrightarrow>
            init key net s =
              (Inr (),
               s\<lparr>SENTINEL_CONFIG := (SENTINEL_CONFIG s)
                    \<lparr>api_key := Some key, project_id := Some p, monthly_budget := m,
                     current_usage := u\<rparr>,
                 requests_sent := requests_sent s @ [verify_request key s]\<rparr>))"
  using assms
  by (simp add: init_def well_formed_key_def verify_request_def config_update_def Let_def)

theorem init_verify_outcomes_witness:
  "well_formed_key ''api-sentinel_pk_abc''
   \<and> fst (init ''api-sentinel_pk_abc'' (\<lambda>r. Responded 401 (NotJson ''Unauthorized'')) initial_state) =
       Inl (ValueError [Text ''Invalid Sentinel API key. Please check your key on the dashboard.''])
   \<and> fst (init ''api-sentinel_pk_abc'' (\<lambda>r. Responded 503 (NotJson ''Unavailable'')) initial_state) =
       Inl (RuntimeError [Text ''[API - SENTINEL] Could not connect to backend. Status: '',
                          Fmt_int 503])
   \<and> fst (init ''api-sentinel_pk_abc'' (\<lambda>r. RequestFailed ''timed out'') initial_state) =
       Inl (RuntimeError [Text ''[API - SENTINEL] Could not connect to backend. Network error: '',
                          Text ''timed out''])
   \<and> init ''api-sentinel_pk_abc''
        (\<lambda>r. Responded 200 (Json \<lparr>data_project_id = Some ''p1'',
                                   data_monthly_budget = Some (PyInt 1000),
                                   data_current_usage = Some (PyFloat (Finite (501 / 2)))\<rparr>))
        initial_state =
       (Inr (),
        \<lparr>SENTINEL_CONFIG =
           \<lparr>api_key = Some ''api-sentinel_pk_abc'', backend_url = ''http://127.0.0.1:8000'',
            project_id = Some ''p1'', monthly_budget = PyInt 1000,
            current_usage = PyFloat (Finite (501 / 2))\<rparr>,
         requests_sent =
           [GET ''http://127.0.0.1:8000/keys/verify'' [(''X-Sentinel-Key'', ''api-sentinel_pk_abc'')]],
         threads_started = []\<rparr>)"
proof -
  have k: "well_formed_key ''api-sentinel_pk_abc''"
    by (simp add: well_formed_key_def)
  note t = init_verify_outcomes [OF k, where s = initial_state]
  have 1: "fst (init ''api-sentinel_pk_abc'' (\<lambda>r. Responded 401 (NotJson ''Unauthorized''))
                  initial_state) =
             Inl (ValueError
                    [Text ''Invalid Sentinel API key. Please check your key on the dashboard.''])"
    using t [of "\<lambda>r. Responded 401 (NotJson ''Unauthorized'')" "NotJson ''Unauthorized''"]
    by simp
  have 2: "fst (init ''api-sentinel_pk_abc'' (\<lambda>r. Responded 503 (NotJson ''Unavailable''))
                  initial_state) =
             Inl (RuntimeError [Text ''[API - SENTINEL] Could not connect to backend. Status: '',
                                Fmt_int 503])"
    using t [of "\<lambda>r. Responded 503 (NotJson ''Unavailable'')" _ 503 "NotJson ''Unavailable''"]
    by simp
  have 3: "fst (init ''api-sentinel_pk_abc'' (\<lambda>r. RequestFailed ''timed out'') initial_state) =
             Inl (RuntimeError
                    [Text ''[API - SENTINEL] Could not connect to backend. Network error: '',
                     Text ''timed out''])"
    using t [of "\<lambda>r. RequestFailed ''timed out''" _ _ _ "''timed out''"]
    by simp
  have 4: "init ''api-sentinel_pk_abc''
             (\<lambda>r. Responded 200 (Json \<lparr>data_project_id = Some ''p1'',
                                        data_monthly_budget = Some (PyInt 1000),
                                        data_current_usage = Some (PyFloat (Finite (501 / 2)))\<rparr>))
             initial_state =
           (Inr (),
            \<lparr>SENTINEL_CONFIG =
               \<lparr>api_key = Some ''api-sentinel_pk_abc'', backend_url = ''http://127.0.0.1:8000'',
                project_id = Some ''p1'', monthly_budget = PyInt 1000,
                current_usage = PyFloat (Finite (501 / 2))\<rparr>,
             requests_sent =
               [GET ''http://127.0.0.1:8000/keys/verify''
                  [(''X-Sentinel-Key'', ''api-sentinel_pk_abc'')]],
             threads_started = []\<rparr>)"
    using t [of "\<lambda>r. Responded 200 (Json \<lparr>data_project_id = Some ''p1'',
                                              data_monthly_budget = Some (PyInt 1000),
                                              data_current_usage = Some (PyFloat (Finite (501 / 2)))\<rparr>)"
               _ _ _ _ 200 "''p1''" "PyInt 1000" "PyFloat (Finite (501 / 2))"]
    by (simp add: initial_state_def initial_config_def verify_request_def)
  from k 1 2 3 4 show ?thesis by simp
qed

text \<open>
  The claim C8 as the spec states it fails: a response with status 300, which is not
  a 2xx, does not make \<open>init\<close> raise; \<open>raise_for_status\<close> raises from 400 on.
\<close>

theorem init_status_300_counterexample:
  "fst (init ''api-sentinel_pk_abc''
          (\<lambda>r. Responded 300 (Json \<lparr>data_project_id = Some ''p1'',
                                     data_monthly_budget = Some (PyInt 1000),
                                     data_current_usage = Some (PyFloat (Finite (501 / 2)))\<rparr>))
          initial_state) = Inr ()"
  by (simp add: init_def initial_state_def initial_config_def config_update_def Let_def)

section \<open>The OpenAI adapter\<close>

lemma fl_zero: "fl 0 = Finite 0"
  by (simp add: fl_cases round64_zero)

lemma fl_overflow:
  assumes "2 ^ 1024 \<le> x"
  shows "fl x = PosInf"
proof -
  have "round64 (2 powi 1024) \<le> round64 x"
    using assms by (intro round64_mono) simp
  moreover have "round64 ((2::rat) powi 1024) = 2 powi 1024"
    by (intro round64_pow2) simp
  ultimately have "2 ^ 1024 \<le> round64 x" by simp
  then show ?thesis by (simp add: fl_cases)
qed

lemma round64_abs_le:
  assumes "\<bar>x\<bar> \<le> 2 powi k" "- 1022 \<le> k"
  shows "\<bar>round64 x\<bar> \<le> 2 powi k"
proof -
  have "round64 x \<le> round64 (2 powi k)"
    using assms(1) by (intro round64_mono) simp
  moreover have "round64 (- (2 powi k)) \<le> round64 x"
    using assms(1) by (intro round64_mono) simp
  ultimately show ?thesis
    using round64_pow2 [OF assms(2)] by (simp add: round64_minus abs_le_iff)
qed

lemma fl_finite:
  assumes "\<bar>x\<bar> \<le> 2 ^ 1023"
  shows "fl x = Finite (round64 x)"
proof -
  have "\<bar>round64 x\<bar> \<le> 2 powi 1023"
    using assms by (intro round64_abs_le) simp_all
  then have "\<bar>round64 x\<bar> \<le> 2 ^ 1023" by simp
  moreover have "(2::rat) ^ 1023 < 2 ^ 1024" by simp
  ultimately have "\<bar>round64 x\<bar> < 2 ^ 1024" by (rule le_less_trans)
  then show ?thesis by (simp add: fl_cases abs_less_iff)
qed

lemma int_truediv_million:
  assumes "\<bar>i\<bar> \<le> 2 ^ 1023 * 1000000"
  shows "int_truediv i 1000000 = Inr (Finite (round64 (of_int i / 1000000)))"
proof -
  have "(of_int \<bar>i\<bar> :: rat) \<le> of_int (2 ^ 1023 * 1000000)"
    using assms by (simp only: of_int_le_iff)
  then have "\<bar>of_int i / 1000000 :: rat\<bar> \<le> 2 ^ 1023"
    by (simp add: field_simps)
  then have "fl (of_int i / 1000000) = Finite (round64 (of_int i / 1000000))"
    by (rule fl_finite)
  then show ?thesis by (simp add: int_truediv_def)
qed

lemma int_truediv_overflow:
  assumes "2 ^ 1024 * 1000000 \<le> i"
  shows "int_truediv i 1000000 =
           Inl (OverflowError [Text ''integer division result too large for a float''])"
proof -
  have "(of_int (2 ^ 1024 * 1000000) :: rat) \<le> of_int i"
    using assms by (simp only: of_int_le_iff)
  then have "2 ^ 1024 \<le> (of_int i / 1000000 :: rat)"
    by (simp add: field_simps)
  then have "fl (of_int i / 1000000) = PosInf" by (rule fl_overflow)
  then show ?thesis by (simp add: int_truediv_def)
qed

lemma float_mul_zero: "float_mul (Finite y) (Finite 0) = Finite 0"
  by (simp add: fl_zero)

lemma py_round_zero: "py_round (Finite 0) n = Finite 0"
  by (simp add: py_round_def rhe_of_int [of 0, simplified] fl_zero)

lemma unknown_model_cost:
  assumes "MODEL_PRICING m = None"
    and "int_truediv i 1000000 = Inr (Finite a)"
    and "int_truediv j 1000000 = Inr (Finite b)"
  shows "calculate_openai_cost i j m = Inr (Finite 0)"
  using assms
  by (simp add: calculate_openai_cost_def usd_to_inr_rate_def fl_zero py_round_zero)

text \<open>
  C6, as the code has it. For a response whose model is not a key of
  \<open>MODEL_PRICING\<close> and whose token counts are at most \<open>2^1023 * 10^6\<close> in absolute
  value, \<open>get_usage_and_cost\<close> returns the usage data with the cost \<open>0.0\<close>; it does
  not raise.
\<close>

theorem unknown_model_costs_nothing:
  assumes "MODEL_PRICING (model r) = None"
    and "\<bar>prompt_tokens (usage r)\<bar> \<le> 2 ^ 1023 * 1000000"
    and "\<bar>completion_tokens (usage r)\<bar> \<le> 2 ^ 1023 * 1000000"
  shows "get_usage_and_cost r =
           Inr \<lparr>cost = Finite 0,
                usage_metadata = \<lparr>meta_input_tokens = prompt_tokens (usage r),
                                   meta_output_tokens = completion_tokens (usage r),
                                   meta_model = model r\<rparr>\<rparr>"
  using unknown_model_cost [OF assms(1) int_truediv_million [OF assms(2)]
          int_truediv_million [OF assms(3)]]
  by (simp add: get_usage_and_cost_def Let_def)

theorem unknown_model_costs_nothing_witness:
  "MODEL_PRICING ''gpt-5'' = None
   \<and> get_usage_and_cost \<lparr>usage = \<lparr>prompt_tokens = 1200, completion_tokens = 340\<rparr>,
                          model = ''gpt-5''\<rparr> =
       Inr \<lparr>cost = Finite 0,
            usage_metadata = \<lparr>meta_input_tokens = 1200, meta_output_tokens = 340,
                               meta_model = ''gpt-5''\<rparr>\<rparr>"
proof -
  have m: "MODEL_PRICING ''gpt-5'' = None"
    by (simp add: MODEL_PRICING_def)
  from unknown_model_costs_nothing
         [of "\<lparr>usage = \<lparr>prompt_tokens = 1200, completion_tokens = 340\<rparr>, model = ''gpt-5''\<rparr>"]
       m
  show ?thesis by simp
qed

text \<open>
  The claim C6 as the spec states it fails: the token counts are Python ints, and for
  a count of \<open>10^320\<close> the division by \<open>1_000_000\<close> raises \<open>OverflowError\<close>, which
  \<open>get_usage_and_cost\<close> does not catch.
\<close>

theorem unknown_model_overflow_counterexample:
  "MODEL_PRICING ''gpt-5'' = None
   \<and> get_usage_and_cost \<lparr>usage = \<lparr>prompt_tokens = 10 ^ 320, completion_tokens = 0\<rparr>,
                          model = ''gpt-5''\<rparr> =
       Inl (OverflowError [Text ''integer division result too large for a float''])"
proof -
  have "int_truediv (10 ^ 320) 1000000 =
          Inl (OverflowError [Text ''integer division result too large for a float''])"
    by (rule int_truediv_overflow) simp
  then show ?thesis
    by (simp add: get_usage_and_cost_def calculate_openai_cost_def MODEL_PRICING_def Let_def)
qed

section \<open>Two computations of the adapter\<close>

lemma py_round_decimal:
  assumes "py_round x n = Finite c"
  shows "\<exists>k. Finite c = fl (of_int k / 10 ^ n)"
proof (cases x)
  case (Finite r)
  with assms have "Finite c = fl (of_int (round_half_even (r * 10 ^ n)) / 10 ^ n)"
    by (simp add: py_round_def)
  then show ?thesis ..
qed (use assms in \<open>simp_all add: py_round_def\<close>)

lemma calculate_unfold:
  assumes "MODEL_PRICING model_name = Some p"
  shows "calculate_openai_cost input_tokens output_tokens model_name =
     (case int_truediv input_tokens 1000000 of
        Inl e \<Rightarrow> Inl e
      | Inr a \<Rightarrow>
          (case int_truediv output_tokens 1000000 of
             Inl e \<Rightarrow> Inl e
           | Inr b \<Rightarrow>
               Inr (py_round
                      (float_mul
                         (float_add (float_mul a (input_price p)) (float_mul b (output_price p)))
                         (Finite (167 / 2))) 4)))"
  using assms
  by (simp add: calculate_openai_cost_def usd_to_inr_rate_def Let_def split: sum.splits)

lemma gpt_4o_pricing:
  "MODEL_PRICING ''gpt-4o'' = Some \<lparr>input_price = Finite 5, output_price = Finite 15\<rparr>"
  by (simp add: MODEL_PRICING_def)

text \<open>1000 input tokens and 500 output tokens of \<open>gpt-4o\<close>: the cost is the float 1.0437.\<close>

lemma example_calculate:
  "calculate_openai_cost 1000 500 ''gpt-4o'' = Inr (Finite (4700406931086587 / 4503599627370496))"
proof -
  have "fl (1000 / 1000000) = Finite (1152921504606847 / 1152921504606846976)"
    by (rule fl_near [where e = "- 10" and m = 4611686018427388]) simp_all
  then have a: "int_truediv 1000 1000000 = Inr (Finite (1152921504606847 / 1152921504606846976))"
    by (simp add: int_truediv_def)
  have "fl (1152921504606847 / 1152921504606846976 * (5)) = Finite (5764607523034235 / 1152921504606846976)"
    by (rule fl_near [where e = "- 8" and m = 5764607523034235]) simp_all
  then have b: "float_mul (Finite (1152921504606847 / 1152921504606846976)) (Finite (5)) = Finite (5764607523034235 / 1152921504606846976)"
    by simp
  have "fl (500 / 1000000) = Finite (1152921504606847 / 2305843009213693952)"
    by (rule fl_near [where e = "- 11" and m = 4611686018427388]) simp_all
  then have c: "int_truediv 500 1000000 = Inr (Finite (1152921504606847 / 2305843009213693952))"
    by (simp add: int_truediv_def)
  have "fl (1152921504606847 / 2305843009213693952 * (15)) = Finite (1080863910568919 / 144115188075855872)"
    by (rule fl_tie [where e = "- 8" and m = 8646911284551352]) simp_all
  then have d: "float_mul (Finite (1152921504606847 / 2305843009213693952)) (Finite (15)) = Finite (1080863910568919 / 144115188075855872)"
    by simp
  have "fl (5764607523034235 / 1152921504606846976 + 1080863910568919 / 144115188075855872) = Finite (3602879701896397 / 288230376151711744)"
    by (rule fl_tie [where e = "- 7" and m = 7205759403792794]) simp_all
  then have e: "float_add (Finite (5764607523034235 / 1152921504606846976)) (Finite (1080863910568919 / 144115188075855872)) = Finite (3602879701896397 / 288230376151711744)"
    by simp
  have "fl (3602879701896397 / 288230376151711744 * (167 / 2)) = Finite (4700632111067955 / 4503599627370496)"
    by (rule fl_near [where e = "0" and m = 4700632111067955]) simp_all
  then have f: "float_mul (Finite (3602879701896397 / 288230376151711744)) (Finite (167 / 2)) = Finite (4700632111067955 / 4503599627370496)"
    by simp
  have r: "round_half_even (4700632111067955 / 4503599627370496 * 10 ^ 4) = 10437"
    by (rule rhe_near) simp
  have "py_round (Finite (4700632111067955 / 4503599627370496)) 4 =
          fl (of_int (round_half_even (4700632111067955 / 4503599627370496 * 10 ^ 4)) / 10 ^ 4)"
    by (simp only: py_round_def pyfloat.case)
  also have "\<dots> = fl (10437 / 10 ^ 4)"
    by (simp only: r) simp
  also have "\<dots> = Finite (4700406931086587 / 4503599627370496)"
    by (rule fl_near [where e = "0" and m = 4700406931086587]) simp_all
  finally have g: "py_round (Finite (4700632111067955 / 4503599627370496)) 4 = Finite (4700406931086587 / 4503599627370496)" .
  show ?thesis
    by (simp only: calculate_unfold [OF gpt_4o_pricing] pricing.simps a b c d e f g sum.case)
qed

lemma example_usage_data:
  "get_usage_and_cost \<lparr>usage = \<lparr>prompt_tokens = 1000, completion_tokens = 500\<rparr>,
                        model = ''gpt-4o''\<rparr> =
     Inr \<lparr>cost = Finite (4700406931086587 / 4503599627370496),
          usage_metadata = \<lparr>meta_input_tokens = 1000, meta_output_tokens = 500,
                             meta_model = ''gpt-4o''\<rparr>\<rparr>"
  by (simp add: get_usage_and_cost_def Let_def example_calculate)

text \<open>100 input tokens and 50 output tokens of \<open>gpt-4o\<close>: the cost is the float 0.1044.\<close>

lemma small_example_calculate:
  "calculate_openai_cost 100 50 ''gpt-4o'' = Inr (Finite (7522812817559677 / 72057594037927936))"
proof -
  have "fl (100 / 1000000) = Finite (7378697629483821 / 73786976294838206464)"
    by (rule fl_near [where e = "- 14" and m = 7378697629483821]) simp_all
  then have a: "int_truediv 100 1000000 = Inr (Finite (7378697629483821 / 73786976294838206464))"
    by (simp add: int_truediv_def)
  have "fl (7378697629483821 / 73786976294838206464 * (5)) = Finite (1152921504606847 / 2305843009213693952)"
    by (rule fl_near [where e = "- 11" and m = 4611686018427388]) simp_all
  then have b: "float_mul (Finite (7378697629483821 / 73786976294838206464)) (Finite (5)) = Finite (1152921504606847 / 2305843009213693952)"
    by simp
  have "fl (50 / 1000000) = Finite (7378697629483821 / 147573952589676412928)"
    by (rule fl_near [where e = "- 15" and m = 7378697629483821]) simp_all
  then have c: "int_truediv 50 1000000 = Inr (Finite (7378697629483821 / 147573952589676412928))"
    by (simp add: int_truediv_def)
  have "fl (7378697629483821 / 147573952589676412928 * (15)) = Finite (3458764513820541 / 4611686018427387904)"
    by (rule fl_near [where e = "- 11" and m = 6917529027641082]) simp_all
  then have d: "float_mul (Finite (7378697629483821 / 147573952589676412928)) (Finite (15)) = Finite (3458764513820541 / 4611686018427387904)"
    by simp
  have "fl (1152921504606847 / 2305843009213693952 + 3458764513820541 / 4611686018427387904) = Finite (5764607523034235 / 4611686018427387904)"
    by (rule fl_near [where e = "- 10" and m = 5764607523034235]) simp_all
  then have e: "float_add (Finite (1152921504606847 / 2305843009213693952)) (Finite (3458764513820541 / 4611686018427387904)) = Finite (5764607523034235 / 4611686018427387904)"
    by simp
  have "fl (5764607523034235 / 4611686018427387904 * (167 / 2)) = Finite (940126422213591 / 9007199254740992)"
    by (rule fl_near [where e = "- 4" and m = 7521011377708728]) simp_all
  then have f: "float_mul (Finite (5764607523034235 / 4611686018427387904)) (Finite (167 / 2)) = Finite (940126422213591 / 9007199254740992)"
    by simp
  have r: "round_half_even (940126422213591 / 9007199254740992 * 10 ^ 4) = 1044"
    by (rule rhe_near) simp
  have "py_round (Finite (940126422213591 / 9007199254740992)) 4 =
          fl (of_int (round_half_even (940126422213591 / 9007199254740992 * 10 ^ 4)) / 10 ^ 4)"
    by (simp only: py_round_def pyfloat.case)
  also have "\<dots> = fl (1044 / 10 ^ 4)"
    by (simp only: r) simp
  also have "\<dots> = Finite (7522812817559677 / 72057594037927936)"
    by (rule fl_near [where e = "- 4" and m = 7522812817559677]) simp_all
  finally have g: "py_round (Finite (940126422213591 / 9007199254740992)) 4 = Finite (7522812817559677 / 72057594037927936)" .
  show ?thesis
    by (simp only: calculate_unfold [OF gpt_4o_pricing] pricing.simps a b c d e f g sum.case)
qed

lemma small_example_usage_data:
  "get_usage_and_cost \<lparr>usage = \<lparr>prompt_tokens = 100, completion_tokens = 50\<rparr>,
                        model = ''gpt-4o''\<rparr> =
     Inr \<lparr>cost = Finite (7522812817559677 / 72057594037927936),
          usage_metadata = \<lparr>meta_input_tokens = 100, meta_output_tokens = 50,
                             meta_model = ''gpt-4o''\<rparr>\<rparr>"
  by (simp add: get_usage_and_cost_def Let_def small_example_calculate)

lemma example_fl_cost:
  "fl (4700406931086587 / 4503599627370496) = Finite (4700406931086587 / 4503599627370496)"
  by (rule fl_near [where e = 0 and m = 4700406931086587]) simp_all

section \<open>Metering\<close>

lemma int_to_float_fails:
  assumes "int_to_float n = Inl e"
  shows "2 ^ 1023 < \<bar>n\<bar>"
proof (rule ccontr)
  assume "\<not> 2 ^ 1023 < \<bar>n\<bar>"
  then have "\<bar>n\<bar> \<le> 2 ^ 1023" by simp
  then have "(of_int \<bar>n\<bar> :: rat) \<le> of_int (2 ^ 1023)" by (simp only: of_int_le_iff)
  then have "\<bar>of_int n :: rat\<bar> \<le> 2 ^ 1023" by simp
  then have "fl (of_int n) = Finite (round64 (of_int n))" by (rule fl_finite)
  with assms show False by (simp add: int_to_float_def)
qed

lemma num_add_fails:
  assumes "num_add u c = Inl e"
  shows "\<exists>n. u = PyInt n \<and> 2 ^ 1023 < \<bar>n\<bar>"
proof (cases u)
  case (PyInt n)
  with assms obtain e' where "int_to_float n = Inl e'"
    by (auto split: sum.splits)
  then have "2 ^ 1023 < \<bar>n\<bar>" by (rule int_to_float_fails)
  with PyInt show ?thesis by simp
next
  case (PyFloat x)
  with assms show ?thesis by simp
qed

text \<open>
  C2, as the code has it. Past the budget check, when the original method returns a response
  and the adapter returns usage data, the wrapper returns that response as it is.
  \<open>current_usage\<close> becomes the sum \<open>current_usage + cost\<close> as Python computes it (an
  int \<open>current_usage\<close> is converted to a float first, and the sum of the two floats is
  rounded to a float), and the reporting thread is started with the usage data. When
  the sum raises, the handler of the \<open>try\<close> block leaves the state as the original
  call left it and no thread is started; the sum raises only for an int
  \<open>current_usage\<close> beyond \<open>2^1023\<close> in absolute value, which is too large for a float.
\<close>

theorem metered_call_adds_cost:
  assumes "num_lt (current_usage (SENTINEL_CONFIG s)) (monthly_budget (SENTINEL_CONFIG s))"
    and "original_method args (s, w) = (Inr response, (s', w'))"
    and "adapter response = Inr usage_data"
  shows "sentinel_wrapper original_method adapter args (s, w) =
           (Inr response,
            (case num_add (current_usage (SENTINEL_CONFIG s')) (cost usage_data) of
               Inr u \<Rightarrow>
                 s'\<lparr>SENTINEL_CONFIG := (SENTINEL_CONFIG s')\<lparr>current_usage := u\<rparr>,
                    threads_started := threads_started s' @ [usage_data]\<rparr>
             | Inl e \<Rightarrow> s'),
            w')
    \<and> (\<forall>e. num_add (current_usage (SENTINEL_CONFIG s')) (cost usage_data) = Inl e \<longrightarrow>
           (\<exists>n. current_usage (SENTINEL_CONFIG s') = PyInt n \<and> 2 ^ 1023 < \<bar>n\<bar>))"
  using assms num_lt_not_ge [OF assms(1)] num_add_fails
  by (auto simp: sentinel_wrapper_def config_update_def Let_def split: sum.splits)

theorem metered_call_adds_cost_witness:
  "num_lt (PyInt 0) (PyInt 100)
   \<and> sentinel_wrapper
        (counted (\<lambda>args::unit. Inr \<lparr>usage = \<lparr>prompt_tokens = 1000, completion_tokens = 500\<rparr>,
                                      model = ''gpt-4o''\<rparr>))
        get_usage_and_cost ()
        (initial_state\<lparr>SENTINEL_CONFIG := initial_config\<lparr>monthly_budget := PyInt 100\<rparr>\<rparr>, 0) =
      (Inr \<lparr>usage = \<lparr>prompt_tokens = 1000, completion_tokens = 500\<rparr>, model = ''gpt-4o''\<rparr>,
       (initial_state
          \<lparr>SENTINEL_CONFIG := initial_config
             \<lparr>monthly_budget := PyInt 100,
              current_usage := PyFloat (Finite (4700406931086587 / 4503599627370496))\<rparr>,
           threads_started :=
             [\<lparr>cost = Finite (4700406931086587 / 4503599627370496),
               usage_metadata = \<lparr>meta_input_tokens = 1000, meta_output_tokens = 500,
                                  meta_model = ''gpt-4o''\<rparr>\<rparr>]\<rparr>, 1))"
proof -
  let ?s = "initial_state\<lparr>SENTINEL_CONFIG := initial_config\<lparr>monthly_budget := PyInt 100\<rparr>\<rparr>"
  let ?r = "\<lparr>usage = \<lparr>prompt_tokens = 1000, completion_tokens = 500\<rparr>, model = ''gpt-4o''\<rparr>"
  have l: "num_lt (PyInt 0) (PyInt 100)"
    by (simp add: num_lt_def float_lt_def)
  then have g: "num_lt (current_usage (SENTINEL_CONFIG ?s)) (monthly_budget (SENTINEL_CONFIG ?s))"
    by (simp add: initial_config_def)
  have o: "counted (\<lambda>args::unit. Inr ?r) () (?s, 0) = (Inr ?r, (?s, 1))"
    by (simp add: counted_def external_def)
  have z: "int_to_float 0 = Inr (Finite 0)"
    by (simp add: int_to_float_def fl_zero)
  from metered_call_adds_cost
         [where original_method = "counted (\<lambda>args::unit. Inr ?r)" and args = "()" and s = ?s
            and w = 0 and adapter = get_usage_and_cost, OF g o example_usage_data] l
  show ?thesis
    by (simp add: initial_state_def initial_config_def z example_fl_cost)
qed

text \<open>
  C2 as stated fails for a \<open>current_usage\<close> that is an int too large for a float (the
  verify response stores what its JSON holds, and a JSON integer has no bound): with
  the usage \<open>10^400\<close> under the budget \<open>10^401\<close> the call passes the budget check and returns
  the response, the adapter returns the cost 1.0437, the sum raises \<open>OverflowError\<close>
  inside the \<open>try\<close> block, and \<open>current_usage\<close> is still \<open>10^400\<close>.
\<close>

theorem metered_call_overflow_counterexample:
  "num_lt (PyInt (10 ^ 400)) (PyInt (10 ^ 401))
   \<and> get_usage_and_cost \<lparr>usage = \<lparr>prompt_tokens = 1000, completion_tokens = 500\<rparr>,
                          model = ''gpt-4o''\<rparr> =
       Inr \<lparr>cost = Finite (4700406931086587 / 4503599627370496),
            usage_metadata = \<lparr>meta_input_tokens = 1000, meta_output_tokens = 500,
                               meta_model = ''gpt-4o''\<rparr>\<rparr>
   \<and> sentinel_wrapper
        (counted (\<lambda>args::unit. Inr \<lparr>usage = \<lparr>prompt_tokens = 1000, completion_tokens = 500\<rparr>,
                                      model = ''gpt-4o''\<rparr>))
        get_usage_and_cost ()
        (initial_state\<lparr>SENTINEL_CONFIG := initial_config
            \<lparr>monthly_budget := PyInt (10 ^ 401), current_usage := PyInt (10 ^ 400)\<rparr>\<rparr>, 0) =
      (Inr \<lparr>usage = \<lparr>prompt_tokens = 1000, completion_tokens = 500\<rparr>, model = ''gpt-4o''\<rparr>,
       (initial_state\<lparr>SENTINEL_CONFIG := initial_config
            \<lparr>monthly_budget := PyInt (10 ^ 401), current_usage := PyInt (10 ^ 400)\<rparr>\<rparr>, 1))"
proof -
  define n :: int where "n = 10 ^ 400"
  define b :: int where "b = 10 ^ 401"
  let ?r = "\<lparr>usage = \<lparr>prompt_tokens = 1000, completion_tokens = 500\<rparr>, model = ''gpt-4o''\<rparr>"
  let ?s = "initial_state\<lparr>SENTINEL_CONFIG := initial_config
              \<lparr>monthly_budget := PyInt b, current_usage := PyInt n\<rparr>\<rparr>"
  have "n < b" by (simp add: n_def b_def)
  then have l: "num_lt (PyInt n) (PyInt b)"
    by (simp add: num_lt_def float_lt_def)
  then have g: "\<not> num_ge (PyInt n) (PyInt b)"
    by (rule num_lt_not_ge)
  have "(2::int) ^ 1024 \<le> n" by (simp add: n_def)
  then have "(of_int (2 ^ 1024) :: rat) \<le> of_int n" by (simp only: of_int_le_iff)
  then have "fl (of_int n) = PosInf"
    by (intro fl_overflow) simp
  then have o: "int_to_float n = Inl (OverflowError [Text ''int too large to convert to float''])"
    by (simp add: int_to_float_def)
  have m: "sentinel_wrapper (counted (\<lambda>args::unit. Inr ?r)) get_usage_and_cost () (?s, 0) =
             (Inr ?r, (?s, 1))"
    using g
    by (simp add: sentinel_wrapper_def counted_def external_def example_usage_data
          initial_config_def o)
  from l example_usage_data m show ?thesis
    unfolding n_def b_def by (intro conjI)
qed

section \<open>The usage over a sequence of calls\<close>

lemma truediv_nonneg:
  assumes "0 \<le> i" "int_truediv i 1000000 = Inr a"
  shows "\<exists>y. a = Finite y \<and> 0 \<le> y"
proof -
  have "0 \<le> round64 (of_int i / 1000000)"
    using assms(1) by (intro round64_nonneg) simp
  with assms(2) show ?thesis
    by (auto simp: int_truediv_def fl_cases split: if_splits)
qed

lemma add_nonneg:
  assumes "float_le (Finite 0) a" "float_le (Finite 0) b"
  shows "float_le (Finite 0) (float_add a b)"
  using assms by (cases a; cases b) (simp_all add: fl_nonneg)

lemma mul_pos_nonneg:
  assumes "float_le (Finite 0) a" "0 < p"
  shows "float_le (Finite 0) (float_mul a (Finite p))"
  using assms by (cases a) (simp_all add: fl_nonneg)

lemma round_nonneg:
  assumes "float_le (Finite 0) x"
  shows "float_le (Finite 0) (py_round x n)"
proof (cases x)
  case (Finite r)
  with assms have "0 \<le> r * 10 ^ n" by simp
  then have "of_int 0 \<le> r * 10 ^ n" by simp
  then have "0 \<le> round_half_even (r * 10 ^ n)" by (rule rhe_ge_int)
  then have "(0::rat) \<le> of_int (round_half_even (r * 10 ^ n)) / 10 ^ n" by simp
  then show ?thesis using Finite by (simp add: py_round_def fl_nonneg)
qed (use assms in \<open>simp_all add: py_round_def\<close>)

lemma pricing_nonneg:
  "\<exists>a b. (case MODEL_PRICING m of Some p \<Rightarrow> p
           | None \<Rightarrow> \<lparr>input_price = Finite 0, output_price = Finite 0\<rparr>) =
          \<lparr>input_price = Finite a, output_price = Finite b\<rparr> \<and> 0 \<le> a \<and> 0 \<le> b"
proof -
  consider "m = ''gpt-4o''" | "m = ''gpt-4-turbo''" | "m = ''gpt-3.5-turbo''"
    | "m \<noteq> ''gpt-4o''" "m \<noteq> ''gpt-4-turbo''" "m \<noteq> ''gpt-3.5-turbo''"
    by blast
  then show ?thesis
  proof cases
    case 1
    then show ?thesis by (intro exI [of _ 5] exI [of _ 15]) (simp add: MODEL_PRICING_def)
  next
    case 2
    then show ?thesis by (intro exI [of _ 10] exI [of _ 30]) (simp add: MODEL_PRICING_def)
  next
    case 3
    then show ?thesis
      by (intro exI [of _ "1 / 2"] exI [of _ "3 / 2"]) (simp add: MODEL_PRICING_def)
  next
    case 4
    then show ?thesis by (intro exI [of _ 0]) (simp add: MODEL_PRICING_def)
  qed
qed

lemma cost_nonneg:
  assumes "0 \<le> i" "0 \<le> j" "calculate_openai_cost i j m = Inr c"
  shows "float_le (Finite 0) c"
proof -
  obtain a b where p: "(case MODEL_PRICING m of Some p \<Rightarrow> p
           | None \<Rightarrow> \<lparr>input_price = Finite 0, output_price = Finite 0\<rparr>) =
          \<lparr>input_price = Finite a, output_price = Finite b\<rparr>" and a: "0 \<le> a" and b: "0 \<le> b"
    using pricing_nonneg [of m] by blast
  from assms(3) obtain x y where x: "int_truediv i 1000000 = Inr x"
    and y: "int_truediv j 1000000 = Inr y"
    and c: "c = py_round (float_mul (float_add (float_mul x (Finite a)) (float_mul y (Finite b)))
                            (Finite (167 / 2))) 4"
    by (auto simp: calculate_openai_cost_def p usd_to_inr_rate_def Let_def split: sum.splits)
  from truediv_nonneg [OF assms(1) x] obtain x' where x': "x = Finite x'" "0 \<le> x'" by blast
  from truediv_nonneg [OF assms(2) y] obtain y' where y': "y = Finite y'" "0 \<le> y'" by blast
  have "float_le (Finite 0) (float_mul x (Finite a))"
    using x' a by (simp add: fl_nonneg)
  moreover have "float_le (Finite 0) (float_mul y (Finite b))"
    using y' b by (simp add: fl_nonneg)
  ultimately have "float_le (Finite 0) (float_add (float_mul x (Finite a)) (float_mul y (Finite b)))"
    by (rule add_nonneg)
  then have "float_le (Finite 0)
      (float_mul (float_add (float_mul x (Finite a)) (float_mul y (Finite b))) (Finite (167 / 2)))"
    by (rule mul_pos_nonneg) simp
  then show ?thesis unfolding c by (rule round_nonneg)
qed

lemma float_le_trans: "float_le a b \<Longrightarrow> float_le b c \<Longrightarrow> float_le a c"
  by (cases a; cases b; cases c) simp_all

lemma float_le_refl: "a \<noteq> NaN \<Longrightarrow> float_le a a"
  by (cases a) simp_all

lemma float_le_not_nan: "float_le a b \<Longrightarrow> a \<noteq> NaN \<and> b \<noteq> NaN"
  by (cases a; cases b) simp_all

lemma is_float64_add: "is_float64 (float_add u c)"
  using is_float64_fl by (cases u; cases c) (simp_all add: is_float64_def)

lemma add_not_lower:
  assumes "is_float64 u" "float_le (Finite 0) c"
  shows "float_add u c = NaN \<or> float_le u (float_add u c)"
proof (cases u)
  case (Finite a)
  show ?thesis
  proof (cases c)
    case (Finite d)
    with assms(2) have d: "0 \<le> d" by simp
    have "round64 a \<le> round64 (a + d)" using d by (intro round64_mono) simp
    moreover have "round64 a = a" "- (2 ^ 1024) < a"
      using assms(1) \<open>u = Finite a\<close> is_float64_round64 is_float64_range by blast+
    ultimately have "a \<le> round64 (a + d)" "\<not> round64 (a + d) \<le> - (2 ^ 1024)" by simp_all
    then show ?thesis using \<open>u = Finite a\<close> Finite by (simp add: fl_cases)
  qed (use assms \<open>u = Finite a\<close> in simp_all)
qed (use assms in \<open>cases c; simp\<close>)+

lemma get_usage_and_cost_nonneg:
  assumes "0 \<le> prompt_tokens (usage r)" "0 \<le> completion_tokens (usage r)"
    and "get_usage_and_cost r = Inr u"
  shows "float_le (Finite 0) (cost u)"
proof -
  from assms(3) obtain c where
    "calculate_openai_cost (prompt_tokens (usage r)) (completion_tokens (usage r)) (model r) = Inr c"
    and "cost u = c"
    by (auto simp: get_usage_and_cost_def Let_def split: sum.splits)
  with cost_nonneg [OF assms(1,2)] show ?thesis by simp
qed

lemma num_value_refl: "num_value u = NaN \<or> float_le (num_value u) (num_value u)"
  using float_le_refl by blast

lemma num_add_not_lower:
  assumes "float_valued u" "float_le (Finite 0) c" "num_add u c = Inr v"
  shows "(num_value v = NaN \<or> float_le (num_value u) (num_value v)) \<and> float_valued v"
proof (cases u)
  case (PyInt n)
  with assms(1) have f: "fl (of_int n) = Finite (of_int n)"
    by (simp add: float_valued_def)
  with assms(3) PyInt have v: "v = PyFloat (float_add (Finite (of_int n)) c)"
    by (simp add: int_to_float_def)
  have "is_float64 (Finite (of_int n))" using f by (simp add: is_float64_def)
  from add_not_lower [OF this assms(2)] is_float64_add [of "Finite (of_int n)" c]
  show ?thesis by (simp add: v PyInt float_valued_def)
next
  case (PyFloat x)
  with assms(3) have v: "v = PyFloat (float_add x c)" by simp
  have "is_float64 x" using assms(1) PyFloat by (simp add: float_valued_def)
  from add_not_lower [OF this assms(2)] is_float64_add [of x c]
  show ?thesis by (simp add: v PyFloat float_valued_def)
qed

lemma wrapper_step:
  assumes "\<forall>args w r w'. original args w = (Inr r, w') \<longrightarrow>
             0 \<le> prompt_tokens (usage r) \<and> 0 \<le> completion_tokens (usage r)"
    and "float_valued (current_usage (SENTINEL_CONFIG s))"
    and "sentinel_wrapper (external original) get_usage_and_cost args (s, w) = (res, (s', w'))"
  shows "(num_value (current_usage (SENTINEL_CONFIG s')) = NaN
          \<or> float_le (num_value (current_usage (SENTINEL_CONFIG s)))
               (num_value (current_usage (SENTINEL_CONFIG s'))))
         \<and> float_valued (current_usage (SENTINEL_CONFIG s'))"
proof -
  let ?u = "current_usage (SENTINEL_CONFIG s)"
  have same: "(num_value ?u = NaN \<or> float_le (num_value ?u) (num_value ?u)) \<and> float_valued ?u"
    using assms(2) num_value_refl [of ?u] by blast
  show ?thesis
  proof (cases "num_ge ?u (monthly_budget (SENTINEL_CONFIG s))")
    case True
    with assms(3) have "s' = s" by (simp add: sentinel_wrapper_def)
    with same show ?thesis by simp
  next
    case False
    obtain x v where o: "original args w = (x, v)" by (cases "original args w")
    show ?thesis
    proof (cases x)
      case (Inl e)
      with assms(3) False o have "s' = s"
        by (simp add: sentinel_wrapper_def external_def)
      with same show ?thesis by simp
    next
      case (Inr r)
      with assms(1) o have t: "0 \<le> prompt_tokens (usage r)" "0 \<le> completion_tokens (usage r)"
        by blast+
      show ?thesis
      proof (cases "get_usage_and_cost r")
        case (Inl e)
        with assms(3) False o Inr have "s' = s"
          by (simp add: sentinel_wrapper_def external_def)
        with same show ?thesis by simp
      next
        case (Inr u)
        have c: "float_le (Finite 0) (cost u)"
          using t Inr by (rule get_usage_and_cost_nonneg)
        show ?thesis
        proof (cases "num_add ?u (cost u)")
          case (Inl e)
          with assms(3) False o \<open>x = Inr r\<close> \<open>get_usage_and_cost r = Inr u\<close> have "s' = s"
            by (simp add: sentinel_wrapper_def external_def)
          with same show ?thesis by simp
        next
          case (Inr v)
          with assms(3) False o \<open>x = Inr r\<close> \<open>get_usage_and_cost r = Inr u\<close>
          have "current_usage (SENTINEL_CONFIG s') = v"
            by (auto simp: sentinel_wrapper_def external_def config_update_def Let_def)
          with num_add_not_lower [OF assms(2) c Inr] show ?thesis by simp
        qed
      qed
    qed
  qed
qed

lemma invoke_all_usage:
  assumes "\<forall>args w r w'. original args w = (Inr r, w') \<longrightarrow>
             0 \<le> prompt_tokens (usage r) \<and> 0 \<le> completion_tokens (usage r)"
    and "float_valued (current_usage (SENTINEL_CONFIG s))"
  shows "(num_value (current_usage (SENTINEL_CONFIG
            (fst (snd (invoke_all (sentinel_wrapper (external original) get_usage_and_cost)
                         argss (s, w)))))) = NaN
          \<or> float_le (num_value (current_usage (SENTINEL_CONFIG s)))
               (num_value (current_usage (SENTINEL_CONFIG
                  (fst (snd (invoke_all (sentinel_wrapper (external original) get_usage_and_cost)
                               argss (s, w))))))))
         \<and> float_valued (current_usage (SENTINEL_CONFIG
              (fst (snd (invoke_all (sentinel_wrapper (external original) get_usage_and_cost)
                           argss (s, w))))))"
  using assms(2)
proof (induction argss arbitrary: s w)
  case Nil
  then show ?case using num_value_refl [of "current_usage (SENTINEL_CONFIG s)"] by auto
next
  case (Cons args rest)
  let ?m = "sentinel_wrapper (external original) get_usage_and_cost"
  obtain res s1 w1 where st: "?m args (s, w) = (res, (s1, w1))"
    by (metis prod.exhaust)
  from wrapper_step [OF assms(1) Cons.prems st]
  have 1: "num_value (current_usage (SENTINEL_CONFIG s1)) = NaN
            \<or> float_le (num_value (current_usage (SENTINEL_CONFIG s)))
                 (num_value (current_usage (SENTINEL_CONFIG s1)))"
    and f1: "float_valued (current_usage (SENTINEL_CONFIG s1))" by simp_all
  have e: "fst (snd (invoke_all ?m (args # rest) (s, w))) = fst (snd (invoke_all ?m rest (s1, w1)))"
    using st by (simp split: prod.splits)
  from Cons.IH [OF f1, of w1]
  have 2: "num_value (current_usage (SENTINEL_CONFIG (fst (snd (invoke_all ?m rest (s1, w1)))))) = NaN
            \<or> float_le (num_value (current_usage (SENTINEL_CONFIG s1)))
                 (num_value (current_usage (SENTINEL_CONFIG (fst (snd (invoke_all ?m rest (s1, w1)))))))"
    and f2: "float_valued (current_usage (SENTINEL_CONFIG (fst (snd (invoke_all ?m rest (s1, w1))))))"
    by simp_all
  from 1 2 have "num_value (current_usage (SENTINEL_CONFIG (fst (snd (invoke_all ?m rest (s1, w1)))))) = NaN
            \<or> float_le (num_value (current_usage (SENTINEL_CONFIG s)))
                 (num_value (current_usage (SENTINEL_CONFIG (fst (snd (invoke_all ?m rest (s1, w1)))))))"
    using float_le_trans float_le_not_nan by blast
  with f2 show ?case by (simp only: e)
qed

lemma not_lower_not_lt: "num_value v = NaN \<or> float_le (num_value u) (num_value v) \<Longrightarrow> \<not> num_lt v u"
  by (auto simp: num_lt_def float_lt_def)

text \<open>
  C10, as the code has it. For a response of the OpenAI adapter with non-negative
  token counts the cost is not below \<open>0.0\<close>. When \<open>current_usage\<close> is a float, or an
  int that its conversion to a float leaves as it is (every int up to \<open>2^53\<close> in
  absolute value is one, lemma \<open>small_int_float_valued\<close> below), then after any
  sequence of invocations of the wrapped method, of a client that returns such
  responses, \<open>current_usage\<close> is not below what it was.
\<close>

theorem usage_never_lowered:
  assumes "float_valued (current_usage (SENTINEL_CONFIG s))"
    and "\<forall>args w r w'. original args w = (Inr r, w') \<longrightarrow>
           0 \<le> prompt_tokens (usage r) \<and> 0 \<le> completion_tokens (usage r)"
  shows "(\<forall>r u. 0 \<le> prompt_tokens (usage r) \<and> 0 \<le> completion_tokens (usage r)
                \<and> get_usage_and_cost r = Inr u \<longrightarrow> float_le (Finite 0) (cost u))
    \<and> \<not> num_lt
          (current_usage (SENTINEL_CONFIG
             (fst (snd (invoke_all (sentinel_wrapper (external original) get_usage_and_cost)
                          argss (s, w))))))
          (current_usage (SENTINEL_CONFIG s))"
  using get_usage_and_cost_nonneg invoke_all_usage [OF assms(2,1), of argss w] not_lower_not_lt
  by blast

lemma floor_log2_nonneg:
  assumes "1 \<le> x"
  shows "0 \<le> floor_log2 x"
proof -
  have "floor_log2 1 = 0" by (rule floor_log2_unique) simp_all
  with floor_log2_mono [of 1 x] assms show ?thesis by simp
qed

lemma round64_small_int:
  assumes "0 < n" "n \<le> 2 ^ 53"
  shows "round64 (of_int n) = of_int n"
proof -
  let ?x = "of_int n :: rat"
  define e where "e = floor_log2 ?x"
  have x: "0 < ?x" "1 \<le> ?x" using assms(1) by simp_all
  have e0: "0 \<le> e" unfolding e_def using x(2) by (rule floor_log2_nonneg)
  have lo: "2 powi e \<le> ?x" using floor_log2_bounds [OF x(1)] by (simp add: e_def)
  have "?x \<le> of_int (2 ^ 53)" using assms(2) by (simp only: of_int_le_iff)
  then have hi: "?x \<le> 2 powi 53" by simp
  have u: "ulp ?x = 2 powi (e - 52)" using e0 by (simp add: ulp_def e_def)
  show ?thesis
  proof (cases "e \<le> 52")
    case True
    define d where "d = nat (52 - e)"
    have "(2::rat) powi (e - 52) * 2 powi (int d) = 2 powi (e - 52 + int d)"
      by (simp add: power_int_add)
    also have "e - 52 + int d = 0" using True by (simp add: d_def)
    finally have "(2::rat) powi (e - 52) * 2 ^ d = 1" by simp
    then have "?x = of_int (n * 2 ^ d) * ulp ?x"
      by (simp add: u mult.assoc mult.commute [of "2 ^ d"])
    with x(1) show ?thesis by (rule round64_fix)
  next
    case False
    then have "53 \<le> e" by simp
    then have "(2::rat) powi 53 \<le> 2 powi e" by (rule pow2_mono)
    with lo hi have xe: "?x = 2 powi 53" by simp
    then have "round64 ?x = round64 (2 powi 53)" by simp
    also have "\<dots> = 2 powi 53" by (rule round64_pow2) simp
    finally show ?thesis using xe by simp
  qed
qed

lemma small_int_float_valued:
  assumes "\<bar>n\<bar> \<le> 2 ^ 53"
  shows "float_valued (PyInt n)"
proof -
  have r: "round64 (of_int n) = of_int n"
  proof -
    consider "n = 0" | "0 < n" | "0 < - n" by linarith
    then show ?thesis
    proof cases
      case 1
      then show ?thesis by (simp add: round64_zero)
    next
      case 2
      with assms show ?thesis by (intro round64_small_int) simp_all
    next
      case 3
      with assms have "round64 (of_int (- n)) = of_int (- n)"
        by (intro round64_small_int) simp_all
      then show ?thesis by (simp add: round64_minus)
    qed
  qed
  have "(of_int \<bar>n\<bar> :: rat) \<le> of_int (2 ^ 53)" using assms by (simp only: of_int_le_iff)
  then have "\<bar>of_int n :: rat\<bar> \<le> 2 ^ 53" by simp
  moreover have "(2::rat) ^ 53 \<le> 2 ^ 1023" by simp
  ultimately have "\<bar>of_int n :: rat\<bar> \<le> 2 ^ 1023" by (rule order_trans)
  then have "fl (of_int n) = Finite (round64 (of_int n))" by (rule fl_finite)
  with r show ?thesis by (simp add: float_valued_def)
qed

lemma example_fl_twice:
  "fl (4700406931086587 / 2251799813685248) = Finite (4700406931086587 / 2251799813685248)"
  by (rule fl_near [where e = 1 and m = 4700406931086587]) simp_all

theorem usage_never_lowered_witness:
  "float_valued (PyInt 0)
   \<and> current_usage (SENTINEL_CONFIG
        (fst (snd (invoke_all
           (sentinel_wrapper
              (external (\<lambda>(args::unit) (n::nat).
                 (Inr \<lparr>usage = \<lparr>prompt_tokens = 1000, completion_tokens = 500\<rparr>,
                       model = ''gpt-4o''\<rparr>, Suc n)))
              get_usage_and_cost)
           [(), ()]
           (initial_state\<lparr>SENTINEL_CONFIG := initial_config\<lparr>monthly_budget := PyInt 100\<rparr>\<rparr>, 0)))))
       = PyFloat (Finite (4700406931086587 / 2251799813685248))
   \<and> \<not> num_lt (PyFloat (Finite (4700406931086587 / 2251799813685248))) (PyInt 0)"
proof -
  let ?s = "initial_state\<lparr>SENTINEL_CONFIG := initial_config\<lparr>monthly_budget := PyInt 100\<rparr>\<rparr>"
  let ?r = "\<lparr>usage = \<lparr>prompt_tokens = 1000, completion_tokens = 500\<rparr>, model = ''gpt-4o''\<rparr>"
  let ?o = "\<lambda>(args::unit) (n::nat). (Inr ?r :: py_exception + response, Suc n)"
  have z: "float_valued (PyInt 0)"
    by (rule small_int_float_valued) simp
  then have f: "float_valued (current_usage (SENTINEL_CONFIG ?s))"
    by (simp add: initial_config_def)
  have t: "\<forall>args w r w'. ?o args w = (Inr r, w') \<longrightarrow>
             0 \<le> prompt_tokens (usage r) \<and> 0 \<le> completion_tokens (usage r)"
    by auto
  have i: "int_to_float 0 = Inr (Finite 0)"
    by (simp add: int_to_float_def fl_zero)
  have v: "current_usage (SENTINEL_CONFIG
             (fst (snd (invoke_all (sentinel_wrapper (external ?o) get_usage_and_cost) [(), ()]
                          (?s, 0)))))
           = PyFloat (Finite (4700406931086587 / 2251799813685248))"
    by (simp add: sentinel_wrapper_def external_def example_usage_data num_ge_def i
          config_update_def initial_config_def example_fl_cost example_fl_twice Let_def)
  have u: "current_usage (SENTINEL_CONFIG ?s) = PyInt 0"
    by (simp add: initial_config_def)
  from usage_never_lowered [OF f t, of "[(), ()]" 0] z v u show ?thesis
    by simp
qed

text \<open>
  C10 as stated fails for an int \<open>current_usage\<close> that is not a float: \<open>init\<close> stores the
  usage 9007199254740993 (\<open>2^53 + 1\<close>) of a verify response; one call of cost 0.1044
  then leaves \<open>current_usage\<close> at the float 9007199254740992.0, which is below it. The
  conversion of the int to a float rounds it down by 1, and the sum with the cost is
  rounded to the same float.
\<close>

theorem usage_lowered_counterexample:
  "init ''api-sentinel_pk_abc''
     (\<lambda>r. Responded 200 (Json \<lparr>data_project_id = Some ''p1'',
                                data_monthly_budget = Some (PyInt 10000000000000000),
                                data_current_usage = Some (PyInt 9007199254740993)\<rparr>))
     initial_state =
     (Inr (),
      \<lparr>SENTINEL_CONFIG =
         \<lparr>api_key = Some ''api-sentinel_pk_abc'', backend_url = ''http://127.0.0.1:8000'',
          project_id = Some ''p1'', monthly_budget = PyInt 10000000000000000,
          current_usage = PyInt 9007199254740993\<rparr>,
       requests_sent =
         [GET ''http://127.0.0.1:8000/keys/verify'' [(''X-Sentinel-Key'', ''api-sentinel_pk_abc'')]],
       threads_started = []\<rparr>)
   \<and> current_usage (SENTINEL_CONFIG
        (fst (snd (invoke_all
           (sentinel_wrapper
              (external (\<lambda>(args::unit) (n::nat).
                 (Inr \<lparr>usage = \<lparr>prompt_tokens = 100, completion_tokens = 50\<rparr>,
                       model = ''gpt-4o''\<rparr>, Suc n)))
              get_usage_and_cost)
           [()]
           (\<lparr>SENTINEL_CONFIG =
               \<lparr>api_key = Some ''api-sentinel_pk_abc'', backend_url = ''http://127.0.0.1:8000'',
                project_id = Some ''p1'', monthly_budget = PyInt 10000000000000000,
                current_usage = PyInt 9007199254740993\<rparr>,
             requests_sent =
               [GET ''http://127.0.0.1:8000/keys/verify''
                  [(''X-Sentinel-Key'', ''api-sentinel_pk_abc'')]],
             threads_started = []\<rparr>, 0)))))
       = PyFloat (Finite 9007199254740992)
   \<and> num_lt (PyFloat (Finite 9007199254740992)) (PyInt 9007199254740993)"
proof -
  have 1: "init ''api-sentinel_pk_abc''
     (\<lambda>r. Responded 200 (Json \<lparr>data_project_id = Some ''p1'',
                                data_monthly_budget = Some (PyInt 10000000000000000),
                                data_current_usage = Some (PyInt 9007199254740993)\<rparr>))
     initial_state =
     (Inr (),
      \<lparr>SENTINEL_CONFIG =
         \<lparr>api_key = Some ''api-sentinel_pk_abc'', backend_url = ''http://127.0.0.1:8000'',
          project_id = Some ''p1'', monthly_budget = PyInt 10000000000000000,
          current_usage = PyInt 9007199254740993\<rparr>,
       requests_sent =
         [GET ''http://127.0.0.1:8000/keys/verify'' [(''X-Sentinel-Key'', ''api-sentinel_pk_abc'')]],
       threads_started = []\<rparr>)"
    by (simp add: init_def initial_state_def initial_config_def config_update_def Let_def)
  have "fl 9007199254740993 = Finite 9007199254740992"
    by (rule fl_tie [where e = 53 and m = 4503599627370496]) simp_all
  then have i: "int_to_float 9007199254740993 = Inr (Finite 9007199254740992)"
    by (simp add: int_to_float_def)
  have a: "fl (9007199254740992 + 7522812817559677 / 72057594037927936) = Finite 9007199254740992"
    by (rule fl_near [where e = 53 and m = 4503599627370496]) simp_all
  have 2: "current_usage (SENTINEL_CONFIG
        (fst (snd (invoke_all
           (sentinel_wrapper
              (external (\<lambda>(args::unit) (n::nat).
                 (Inr \<lparr>usage = \<lparr>prompt_tokens = 100, completion_tokens = 50\<rparr>,
                       model = ''gpt-4o''\<rparr>, Suc n)))
              get_usage_and_cost)
           [()]
           (\<lparr>SENTINEL_CONFIG =
               \<lparr>api_key = Some ''api-sentinel_pk_abc'', backend_url = ''http://127.0.0.1:8000'',
                project_id = Some ''p1'', monthly_budget = PyInt 10000000000000000,
                current_usage = PyInt 9007199254740993\<rparr>,
             requests_sent =
               [GET ''http://127.0.0.1:8000/keys/verify''
                  [(''X-Sentinel-Key'', ''api-sentinel_pk_abc'')]],
             threads_started = []\<rparr>, 0)))))
       = PyFloat (Finite 9007199254740992)"
    using a
    by (simp add: sentinel_wrapper_def external_def small_example_usage_data num_ge_def i
          config_update_def Let_def)
  have 3: "num_lt (PyFloat (Finite 9007199254740992)) (PyInt 9007199254740993)"
    by (simp add: num_lt_def float_lt_def)
  from 1 2 3 show ?thesis by (intro conjI)
qed

section \<open>The error of the float computation\<close>























section \<open>The cost and the formula of the spec\<close>














end
